theory Spec2Isabelle
  imports Main
begin

section \<open>SQL values\<close>

text \<open>
  The database layer of the repository is two SQL migration scripts: the first is built
  around \<^verbatim>\<open>public.users\<close>, the second around \<^verbatim>\<open>public.profiles\<close>. Both are embedded;
  a \<open>schema\<close> value says which script a definition is read from.

  A UUID is a natural number. A \<^verbatim>\<open>NUMERIC(p, 2)\<close> value is stored with two decimals, so it
  is the integer number of hundredths, and it fits the column when it has at most \<open>p\<close>
  digits. A nullable column is an \<open>option\<close>, with \<open>None\<close> for \<^verbatim>\<open>NULL\<close>; a boolean
  expression of SQL is a \<open>bool option\<close>.
\<close>

datatype schema = UsersBased | ProfilesBased

type_synonym uuid = nat
type_synonym numeric = int
type_synonym sql_bool = "bool option"

datatype db_error =
    GeneratedAlways string
  | NumericOverflow string
  | NotNull string
  | CheckViolation string
  | UniqueViolation string
  | ForeignKey string
  | RowSecurity string
  | InfiniteRecursion string

definition numeric_fits :: "nat \<Rightarrow> numeric option \<Rightarrow> bool" where
  "numeric_fits p v = (case v of None \<Rightarrow> True | Some x \<Rightarrow> \<bar>x\<bar> < 10 ^ p)"

fun sql_sub :: "numeric option \<Rightarrow> numeric option \<Rightarrow> numeric option" where
  "sql_sub (Some a) (Some b) = Some (a - b)"
| "sql_sub _ _ = None"

definition sql_gt :: "numeric option \<Rightarrow> numeric \<Rightarrow> sql_bool" where
  "sql_gt a k = map_option (\<lambda>x. k < x) a"

definition sql_ge :: "numeric option \<Rightarrow> numeric \<Rightarrow> sql_bool" where
  "sql_ge a k = map_option (\<lambda>x. k \<le> x) a"

definition sql_eq :: "'a option \<Rightarrow> 'a option \<Rightarrow> sql_bool" where
  "sql_eq a b = (case a of None \<Rightarrow> None
                 | Some x \<Rightarrow> (case b of None \<Rightarrow> None | Some y \<Rightarrow> Some (x = y)))"

definition sql_in :: "'a option \<Rightarrow> 'a list \<Rightarrow> sql_bool" where
  "sql_in a vs = map_option (\<lambda>x. x \<in> set vs) a"

fun sql_and :: "sql_bool \<Rightarrow> sql_bool \<Rightarrow> sql_bool" where
  "sql_and (Some False) _ = Some False"
| "sql_and _ (Some False) = Some False"
| "sql_and (Some True) (Some True) = Some True"
| "sql_and _ _ = None"

definition is_not_null :: "'a option \<Rightarrow> sql_bool" where
  "is_not_null a = Some (a \<noteq> None)"

text \<open>
  A \<^verbatim>\<open>CHECK\<close> constraint rejects a row only when its expression is false; a \<^verbatim>\<open>WHERE\<close>
  clause and a row-security expression keep a row only when the expression is true.
\<close>

definition check_passes :: "sql_bool \<Rightarrow> bool" where
  "check_passes b = (b \<noteq> Some False)"

definition qual_passes :: "sql_bool \<Rightarrow> bool" where
  "qual_passes b = (b = Some True)"

text \<open>
  A column of an \<^verbatim>\<open>INSERT\<close> is either left out, and takes its default, or given a value
  that may be \<^verbatim>\<open>NULL\<close>. A column of an \<^verbatim>\<open>UPDATE\<close> is either kept or set.
\<close>

datatype 'a arg = Omitted | Given "'a option"

fun with_default :: "'a option \<Rightarrow> 'a arg \<Rightarrow> 'a option" where
  "with_default d Omitted = d"
| "with_default d (Given v) = v"

datatype 'a assign = Keep | SetTo "'a option"

fun assigned :: "'a option \<Rightarrow> 'a assign \<Rightarrow> 'a option" where
  "assigned old Keep = old"
| "assigned old (SetTo v) = v"

text \<open>The constraints of a table are tried in order; the first one violated is reported.\<close>

fun first_error :: "(bool \<times> db_error) list \<Rightarrow> db_error option" where
  "first_error [] = None"
| "first_error ((violated, e) # cs) = (if violated then Some e else first_error cs)"

text \<open>
  \<^verbatim>\<open>UPDATE t SET ... WHERE P\<close> rewrites every row that satisfies \<open>P\<close>; one failing row
  aborts the statement. \<^verbatim>\<open>DELETE FROM t WHERE P\<close> keeps the other rows.
\<close>

fun update_rows :: "('r \<Rightarrow> db_error + 'r) \<Rightarrow> ('r \<Rightarrow> bool) \<Rightarrow> 'r list \<Rightarrow> db_error + 'r list" where
  "update_rows f P [] = Inr []"
| "update_rows f P (r # rs) =
     (if P r then
        (case f r of
           Inl e \<Rightarrow> Inl e
         | Inr r' \<Rightarrow> (case update_rows f P rs of Inl e \<Rightarrow> Inl e | Inr rs' \<Rightarrow> Inr (r' # rs')))
      else (case update_rows f P rs of Inl e \<Rightarrow> Inl e | Inr rs' \<Rightarrow> Inr (r # rs')))"

definition delete_rows :: "('r \<Rightarrow> bool) \<Rightarrow> 'r list \<Rightarrow> 'r list" where
  "delete_rows P t = filter (\<lambda>r. \<not> P r) t"

text \<open>
  The states of a table: it is created empty, and then changed by the statements that
  the constraints accept. \<open>ins\<close> is the table's insert and \<open>upd\<close> its update of one row.
\<close>

inductive reachable ::
  "('q \<Rightarrow> 'r list \<Rightarrow> db_error + 'r list) \<Rightarrow> ('u \<Rightarrow> 'r \<Rightarrow> db_error + 'r) \<Rightarrow> 'r list \<Rightarrow> bool"
  for ins upd where
  created: "reachable ins upd []"
| inserted: "reachable ins upd t \<Longrightarrow> ins q t = Inr t' \<Longrightarrow> reachable ins upd t'"
| updated: "reachable ins upd t \<Longrightarrow> update_rows (upd u) P t = Inr t' \<Longrightarrow> reachable ins upd t'"
| deleted: "reachable ins upd t \<Longrightarrow> reachable ins upd (delete_rows P t)"

section \<open>Account holders: \<^verbatim>\<open>public.users\<close> and \<^verbatim>\<open>public.profiles\<close>\<close>

text \<open>
  One row type serves both tables: the second script declares the same columns and
  drops some \<^verbatim>\<open>NOT NULL\<close>s. The timestamps are left out.
\<close>

record user_row =
  u_id :: uuid
  u_full_name :: "string option"
  u_email :: "string option"
  u_phone :: "string option"
  u_role :: "string option"
  u_kyc_status :: "string option"
  u_account_status :: "string option"

record user_update =
  uu_full_name :: "string assign"
  uu_phone :: "string assign"
  uu_role :: "string assign"
  uu_kyc_status :: "string assign"
  uu_account_status :: "string assign"

definition user_roles :: "string list" where
  "user_roles = [''user'', ''admin'', ''support'']"

definition kyc_statuses :: "string list" where
  "kyc_statuses = [''pending'', ''approved'', ''rejected'', ''under_review'']"

definition account_statuses :: "string list" where
  "account_statuses = [''active'', ''suspended'', ''closed'']"

fun users_constraints :: "schema \<Rightarrow> user_row \<Rightarrow> (bool \<times> db_error) list" where
  "users_constraints UsersBased r =
     [(u_full_name r = None, NotNull ''full_name''),
      (u_email r = None, NotNull ''email''),
      (u_role r = None, NotNull ''role''),
      (\<not> check_passes (sql_in (u_role r) user_roles), CheckViolation ''role''),
      (\<not> check_passes (sql_in (u_kyc_status r) kyc_statuses), CheckViolation ''kyc_status''),
      (\<not> check_passes (sql_in (u_account_status r) account_statuses),
         CheckViolation ''account_status'')]"
| "users_constraints ProfilesBased r =
     [(u_email r = None, NotNull ''email''),
      (\<not> check_passes (sql_in (u_role r) user_roles), CheckViolation ''role''),
      (\<not> check_passes (sql_in (u_kyc_status r) kyc_statuses), CheckViolation ''kyc_status''),
      (\<not> check_passes (sql_in (u_account_status r) account_statuses),
         CheckViolation ''account_status'')]"

text \<open>
  An update statement of the model sets the columns below; the key \<open>id\<close> and the unique
  \<open>email\<close> are not assigned.
\<close>

definition users_assign :: "user_update \<Rightarrow> user_row \<Rightarrow> db_error + user_row" where
  "users_assign u r =
     Inr (r\<lparr>u_full_name := assigned (u_full_name r) (uu_full_name u),
            u_phone := assigned (u_phone r) (uu_phone u),
            u_role := assigned (u_role r) (uu_role u),
            u_kyc_status := assigned (u_kyc_status r) (uu_kyc_status u),
            u_account_status := assigned (u_account_status r) (uu_account_status u)\<rparr>)"

section \<open>Row-level security\<close>

text \<open>
  Every policy of the two scripts is permissive and granted \<^verbatim>\<open>TO authenticated\<close>. Its
  expressions read the caller's identity \<^verbatim>\<open>auth.uid()\<close>, the row, and, through a
  subquery, the account-holder table as the statement finds it. A caller is either an
  authenticated user or the service role, which row-level security does not bind.
\<close>

datatype caller = ServiceRole | Authenticated uuid

datatype command = Select | Insert | Update | Delete

text \<open>
  The expressions the policies are written with:
  \<^verbatim>\<open>auth.uid() = col\<close>,
  \<^verbatim>\<open>col = 'literal'\<close>,
  \<^verbatim>\<open>EXISTS (SELECT 1 FROM public.users WHERE id = auth.uid() AND role = 'admin')\<close>,
  \<^verbatim>\<open>col = (SELECT role FROM public.users WHERE id = auth.uid())\<close>
  and \<^verbatim>\<open>AND\<close>; the second script has \<^verbatim>\<open>public.profiles\<close> in the subqueries.
\<close>

datatype 'r policy_expr =
    CallerIs "'r \<Rightarrow> uuid option"
  | ColumnIs "'r \<Rightarrow> string option" string
  | CallerIsAdmin
  | ColumnIsCallerRole "'r \<Rightarrow> string option"
  | AndAlso "'r policy_expr" "'r policy_expr"

record 'r policy =
  pol_name :: string
  pol_cmd :: command
  pol_using :: "'r policy_expr option"
  pol_with_check :: "'r policy_expr option"

text \<open>\<^verbatim>\<open>EXISTS (SELECT 1 FROM public.users WHERE id = auth.uid() AND role = 'admin')\<close>\<close>

definition caller_is_admin :: "uuid \<Rightarrow> user_row list \<Rightarrow> sql_bool" where
  "caller_is_admin uid us =
     Some (list_ex (\<lambda>u. qual_passes (sql_and (sql_eq (Some (u_id u)) (Some uid))
                                             (sql_eq (u_role u) (Some ''admin'')))) us)"

text \<open>
  \<^verbatim>\<open>(SELECT role FROM public.users WHERE id = auth.uid())\<close>: the primary key leaves at
  most one such row, and no row gives \<^verbatim>\<open>NULL\<close>.
\<close>

definition caller_role :: "uuid \<Rightarrow> user_row list \<Rightarrow> string option" where
  "caller_role uid us =
     (case filter (\<lambda>u. u_id u = uid) us of [] \<Rightarrow> None | u # _ \<Rightarrow> u_role u)"

fun expr_value :: "'r policy_expr \<Rightarrow> uuid \<Rightarrow> user_row list \<Rightarrow> 'r \<Rightarrow> sql_bool" where
  "expr_value (CallerIs col) uid us r = sql_eq (Some uid) (col r)"
| "expr_value (ColumnIs col lit) uid us r = sql_eq (col r) (Some lit)"
| "expr_value CallerIsAdmin uid us r = caller_is_admin uid us"
| "expr_value (ColumnIsCallerRole col) uid us r = sql_eq (col r) (caller_role uid us)"
| "expr_value (AndAlso a b) uid us r = sql_and (expr_value a uid us r) (expr_value b uid us r)"

text \<open>Whether an expression has a subquery; every subquery reads the account-holder table.\<close>

fun has_subquery :: "'r policy_expr \<Rightarrow> bool" where
  "has_subquery (CallerIs col) = False"
| "has_subquery (ColumnIs col lit) = False"
| "has_subquery CallerIsAdmin = True"
| "has_subquery (ColumnIsCallerRole col) = True"
| "has_subquery (AndAlso a b) = (has_subquery a \<or> has_subquery b)"

definition pol_subquery :: "'r policy \<Rightarrow> bool" where
  "pol_subquery p =
     ((case pol_using p of None \<Rightarrow> False | Some e \<Rightarrow> has_subquery e) \<or>
      (case pol_with_check p of None \<Rightarrow> False | Some e \<Rightarrow> has_subquery e))"

definition using_holds :: "'r policy \<Rightarrow> uuid \<Rightarrow> user_row list \<Rightarrow> 'r \<Rightarrow> bool" where
  "using_holds p uid us r =
     (case pol_using p of None \<Rightarrow> True | Some e \<Rightarrow> qual_passes (expr_value e uid us r))"

text \<open>An update policy without \<^verbatim>\<open>WITH CHECK\<close> checks the new row with its \<^verbatim>\<open>USING\<close>.\<close>

definition check_holds :: "'r policy \<Rightarrow> uuid \<Rightarrow> user_row list \<Rightarrow> 'r \<Rightarrow> bool" where
  "check_holds p uid us r =
     (case pol_with_check p of
        None \<Rightarrow> using_holds p uid us r
      | Some e \<Rightarrow> qual_passes (expr_value e uid us r))"

text \<open>
  Permissive policies are combined with \<^verbatim>\<open>OR\<close>, and a command with no policy is
  denied.
\<close>

definition allowed_using ::
  "'r policy list \<Rightarrow> command \<Rightarrow> uuid \<Rightarrow> user_row list \<Rightarrow> 'r \<Rightarrow> bool" where
  "allowed_using ps c uid us r = list_ex (\<lambda>p. pol_cmd p = c \<and> using_holds p uid us r) ps"

definition allowed_check ::
  "'r policy list \<Rightarrow> command \<Rightarrow> uuid \<Rightarrow> user_row list \<Rightarrow> 'r \<Rightarrow> bool" where
  "allowed_check ps c uid us r = list_ex (\<lambda>p. pol_cmd p = c \<and> check_holds p uid us r) ps"

fun visible :: "'r policy list \<Rightarrow> caller \<Rightarrow> user_row list \<Rightarrow> 'r \<Rightarrow> bool" where
  "visible ps ServiceRole us r = True"
| "visible ps (Authenticated uid) us r = allowed_using ps Select uid us r"

fun insertable :: "'r policy list \<Rightarrow> caller \<Rightarrow> user_row list \<Rightarrow> 'r \<Rightarrow> bool" where
  "insertable ps ServiceRole us r = True"
| "insertable ps (Authenticated uid) us r = allowed_check ps Insert uid us r"

text \<open>
  An \<^verbatim>\<open>UPDATE ... WHERE\<close> reads the rows it changes: the old row has to pass the select
  and the update policies' \<^verbatim>\<open>USING\<close>, or the statement passes it by; the new row has to
  pass the update policies' \<^verbatim>\<open>WITH CHECK\<close> and stay readable, or the statement fails.
\<close>

fun updatable :: "'r policy list \<Rightarrow> caller \<Rightarrow> user_row list \<Rightarrow> 'r \<Rightarrow> bool" where
  "updatable ps ServiceRole us r = True"
| "updatable ps (Authenticated uid) us r =
     (allowed_using ps Select uid us r \<and> allowed_using ps Update uid us r)"

fun storable :: "'r policy list \<Rightarrow> caller \<Rightarrow> user_row list \<Rightarrow> 'r \<Rightarrow> bool" where
  "storable ps ServiceRole us r = True"
| "storable ps (Authenticated uid) us r =
     (allowed_check ps Update uid us r \<and> allowed_using ps Select uid us r)"

subsection \<open>Policies that do not unfold\<close>

text \<open>
  The engine puts the policies into a statement when it rewrites it, before it looks at
  a row: those of the statement's command, and the select policies too when the
  statement reads the table. A subquery of a policy is a read of the account-holder
  table by the caller, so it takes that table's select policies in turn. When one of
  these has a subquery, on the same table, the unfolding does not end, and the engine
  refuses the statement: \<^verbatim>\<open>ERROR 42P17: infinite recursion detected in policy for relation\<close>.
  So the refusal does not depend on the rows or on who the caller is; the service role
  is not bound by the policies and is not refused.

  \<open>account_holders\<close> is what a statement needs of the account-holder table: its name,
  its policies and its rows.
\<close>

record account_holders =
  ah_table :: string
  ah_policies :: "user_row policy list"
  ah_rows :: "user_row list"

definition policy_recursion ::
  "user_row policy list \<Rightarrow> 'r policy list \<Rightarrow> command list \<Rightarrow> bool" where
  "policy_recursion ups ps cs =
     (list_ex (\<lambda>p. pol_cmd p \<in> set cs \<and> pol_subquery p) ps \<and>
      list_ex (\<lambda>p. pol_cmd p = Select \<and> pol_subquery p) ups)"

fun rewrite_error ::
  "account_holders \<Rightarrow> 'r policy list \<Rightarrow> caller \<Rightarrow> command list \<Rightarrow> db_error option" where
  "rewrite_error ah ps ServiceRole cs = None"
| "rewrite_error ah ps (Authenticated uid) cs =
     (if policy_recursion (ah_policies ah) ps cs then Some (InfiniteRecursion (ah_table ah))
      else None)"

subsection \<open>Statements\<close>

definition select_rows ::
  "account_holders \<Rightarrow> 'r policy list \<Rightarrow> caller \<Rightarrow> ('r \<Rightarrow> bool) \<Rightarrow> 'r list \<Rightarrow>
   db_error + 'r list" where
  "select_rows ah ps c P t =
     (case rewrite_error ah ps c [Select] of
        Some e \<Rightarrow> Inl e
      | None \<Rightarrow> Inr (filter (\<lambda>r. visible ps c (ah_rows ah) r \<and> P r) t))"

text \<open>
  An insert (without \<^verbatim>\<open>RETURNING\<close>) takes the insert policies only. It builds the row
  (defaults, types, generated columns), then checks the insert policies, then the
  constraints of the row and the keys of the table.
\<close>

definition insert_row ::
  "account_holders \<Rightarrow> 'r policy list \<Rightarrow> string \<Rightarrow> caller \<Rightarrow> ('r \<Rightarrow> (bool \<times> db_error) list) \<Rightarrow>
   ('r list \<Rightarrow> 'r \<Rightarrow> (bool \<times> db_error) list) \<Rightarrow> db_error + 'r \<Rightarrow> 'r list \<Rightarrow> db_error + 'r list" where
  "insert_row ah ps tbl c cons keys new t =
     (case rewrite_error ah ps c [Insert] of
        Some e \<Rightarrow> Inl e
      | None \<Rightarrow>
          (case new of
             Inl e \<Rightarrow> Inl e
           | Inr r \<Rightarrow>
               if \<not> insertable ps c (ah_rows ah) r then Inl (RowSecurity tbl)
               else (case first_error (cons r @ keys t r) of
                       Some e \<Rightarrow> Inl e
                     | None \<Rightarrow> Inr (t @ [r]))))"

definition update_row ::
  "'r policy list \<Rightarrow> string \<Rightarrow> caller \<Rightarrow> user_row list \<Rightarrow> ('r \<Rightarrow> (bool \<times> db_error) list) \<Rightarrow>
   ('r \<Rightarrow> db_error + 'r) \<Rightarrow> 'r \<Rightarrow> db_error + 'r" where
  "update_row ps tbl c us cons assign r =
     (case assign r of
        Inl e \<Rightarrow> Inl e
      | Inr r' \<Rightarrow>
          if \<not> storable ps c us r' then Inl (RowSecurity tbl)
          else (case first_error (cons r') of
                  Some e \<Rightarrow> Inl e
                | None \<Rightarrow> Inr r'))"

text \<open>
  An update is \<^verbatim>\<open>UPDATE ... SET ... WHERE ...\<close> with a condition on the row, as the client
  sends it (\<^verbatim>\<open>.update(...).eq(...)\<close>): it reads the table, so it takes the select policies
  with the update policies.
\<close>

definition update_table ::
  "account_holders \<Rightarrow> 'r policy list \<Rightarrow> string \<Rightarrow> caller \<Rightarrow> ('r \<Rightarrow> (bool \<times> db_error) list) \<Rightarrow>
   ('r \<Rightarrow> db_error + 'r) \<Rightarrow> ('r \<Rightarrow> bool) \<Rightarrow> 'r list \<Rightarrow> db_error + 'r list" where
  "update_table ah ps tbl c cons assign P t =
     (case rewrite_error ah ps c [Select, Update] of
        Some e \<Rightarrow> Inl e
      | None \<Rightarrow>
          update_rows (update_row ps tbl c (ah_rows ah) cons assign)
            (\<lambda>r. P r \<and> updatable ps c (ah_rows ah) r) t)"

text \<open>A statement that fails leaves the table as it was.\<close>

definition table_after :: "'r list \<Rightarrow> db_error + 'r list \<Rightarrow> 'r list" where
  "table_after t res = (case res of Inl e \<Rightarrow> t | Inr t' \<Rightarrow> t')"

text \<open>
  What a statement on another table sees of the rest of the database: the rows of the
  account-holder table, for the policies' subqueries and the foreign key \<open>user_id\<close>, and
  the keys of \<^verbatim>\<open>withdrawal_accounts\<close>.
\<close>

record ctx =
  ctx_users :: "user_row list"
  ctx_withdrawal_accounts :: "uuid set"

fun fk_holds :: "uuid set \<Rightarrow> uuid option \<Rightarrow> bool" where
  "fk_holds ids None = True"
| "fk_holds ids (Some k) = (k \<in> ids)"

definition user_exists :: "ctx \<Rightarrow> uuid option \<Rightarrow> bool" where
  "user_exists ctx k = fk_holds (u_id ` set (ctx_users ctx)) k"

subsection \<open>Policies on the account-holder table\<close>

definition users_read_own :: "user_row policy" where
  "users_read_own =
     \<lparr>pol_name = ''users_read_own'', pol_cmd = Select,
      pol_using = Some (CallerIs (\<lambda>r. Some (u_id r))),
      pol_with_check = None\<rparr>"

definition admins_read_all_users :: "user_row policy" where
  "admins_read_all_users =
     \<lparr>pol_name = ''admins_read_all_users'', pol_cmd = Select,
      pol_using = Some CallerIsAdmin,
      pol_with_check = None\<rparr>"

text \<open>
  The script's comment on the next policy: \<^verbatim>\<open>-- Users can update their own name and phone\<close>.
\<close>

definition users_update_own :: "user_row policy" where
  "users_update_own =
     \<lparr>pol_name = ''users_update_own'', pol_cmd = Update,
      pol_using = Some (CallerIs (\<lambda>r. Some (u_id r))),
      pol_with_check =
        Some (AndAlso (CallerIs (\<lambda>r. Some (u_id r))) (ColumnIsCallerRole u_role))\<rparr>"

definition users_read_own_profile :: "user_row policy" where
  "users_read_own_profile =
     \<lparr>pol_name = ''users_read_own_profile'', pol_cmd = Select,
      pol_using = Some (CallerIs (\<lambda>r. Some (u_id r))),
      pol_with_check = None\<rparr>"

definition admins_read_all_profiles :: "user_row policy" where
  "admins_read_all_profiles =
     \<lparr>pol_name = ''admins_read_all_profiles'', pol_cmd = Select,
      pol_using = Some CallerIsAdmin,
      pol_with_check = None\<rparr>"

fun users_policies :: "schema \<Rightarrow> user_row policy list" where
  "users_policies UsersBased = [users_read_own, admins_read_all_users, users_update_own]"
| "users_policies ProfilesBased = [users_read_own_profile, admins_read_all_profiles]"

fun users_table :: "schema \<Rightarrow> string" where
  "users_table UsersBased = ''users''"
| "users_table ProfilesBased = ''profiles''"

definition account_table :: "schema \<Rightarrow> user_row list \<Rightarrow> account_holders" where
  "account_table g us =
     \<lparr>ah_table = users_table g, ah_policies = users_policies g, ah_rows = us\<rparr>"

text \<open>The policies' subqueries read the table as it is before the statement.\<close>

definition users_update ::
  "schema \<Rightarrow> caller \<Rightarrow> user_update \<Rightarrow> (user_row \<Rightarrow> bool) \<Rightarrow> user_row list \<Rightarrow>
   db_error + user_row list" where
  "users_update g c u P t =
     update_table (account_table g t) (users_policies g) (users_table g) c
       (users_constraints g) (users_assign u) P t"

definition own_row :: "('r \<Rightarrow> uuid option) \<Rightarrow> 'r policy_expr" where
  "own_row owner = CallerIs owner"

definition own_pending_row :: "('r \<Rightarrow> uuid option) \<Rightarrow> ('r \<Rightarrow> string option) \<Rightarrow> 'r policy_expr" where
  "own_pending_row owner status = AndAlso (CallerIs owner) (ColumnIs status ''pending'')"

definition admin_caller :: "'r policy_expr" where
  "admin_caller = CallerIsAdmin"

section \<open>The withdrawals table\<close>

text \<open>
  The columns that carry a constraint, a default or a policy, in both scripts. The
  free-text and timestamp columns and \<open>reviewed_by\<close> are left out, and a statement does
  not assign the key \<open>id\<close>.
\<close>

record withdrawal =
  w_id :: uuid
  w_user_id :: "uuid option"
  w_withdrawal_account_id :: "uuid option"
  w_amount :: "numeric option"
  w_currency :: "string option"
  w_fee :: "numeric option"
  w_net_amount :: "numeric option"
  w_status :: "string option"

record withdrawal_insert =
  wi_id :: uuid
  wi_user_id :: "uuid arg"
  wi_withdrawal_account_id :: "uuid arg"
  wi_amount :: "numeric arg"
  wi_currency :: "string arg"
  wi_fee :: "numeric arg"
  wi_net_amount :: "numeric arg"
  wi_status :: "string arg"

record withdrawal_update =
  wu_user_id :: "uuid assign"
  wu_withdrawal_account_id :: "uuid assign"
  wu_amount :: "numeric assign"
  wu_currency :: "string assign"
  wu_fee :: "numeric assign"
  wu_net_amount :: "numeric assign"
  wu_status :: "string assign"

definition withdrawal_statuses :: "string list" where
  "withdrawal_statuses =
     [''pending'', ''approved'', ''rejected'', ''processing'', ''completed'', ''failed'']"

fun withdrawals_constraints :: "schema \<Rightarrow> ctx \<Rightarrow> withdrawal \<Rightarrow> (bool \<times> db_error) list" where
  "withdrawals_constraints UsersBased ctx r =
     [(w_user_id r = None, NotNull ''user_id''),
      (w_withdrawal_account_id r = None, NotNull ''withdrawal_account_id''),
      (w_amount r = None, NotNull ''amount''),
      (w_currency r = None, NotNull ''currency''),
      (w_status r = None, NotNull ''status''),
      (\<not> check_passes (sql_gt (w_amount r) 0), CheckViolation ''amount''),
      (\<not> check_passes (sql_ge (w_fee r) 0), CheckViolation ''fee''),
      (\<not> check_passes (sql_in (w_status r) withdrawal_statuses), CheckViolation ''status''),
      (\<not> user_exists ctx (w_user_id r), ForeignKey ''user_id''),
      (\<not> fk_holds (ctx_withdrawal_accounts ctx) (w_withdrawal_account_id r),
         ForeignKey ''withdrawal_account_id'')]"
| "withdrawals_constraints ProfilesBased ctx r =
     [(w_user_id r = None, NotNull ''user_id''),
      (w_amount r = None, NotNull ''amount''),
      (\<not> check_passes (sql_gt (w_amount r) 0), CheckViolation ''amount''),
      (\<not> check_passes (sql_in (w_status r) withdrawal_statuses), CheckViolation ''status''),
      (\<not> user_exists ctx (w_user_id r), ForeignKey ''user_id''),
      (\<not> fk_holds (ctx_withdrawal_accounts ctx) (w_withdrawal_account_id r),
         ForeignKey ''withdrawal_account_id'')]"

definition withdrawals_keys :: "withdrawal list \<Rightarrow> withdrawal \<Rightarrow> (bool \<times> db_error) list" where
  "withdrawals_keys t r = [(w_id r \<in> w_id ` set t, UniqueViolation ''withdrawals_pkey'')]"

text \<open>
  \<^verbatim>\<open>amount NUMERIC(15, 2)\<close>, \<^verbatim>\<open>fee NUMERIC(10, 2)\<close> and
  \<^verbatim>\<open>net_amount NUMERIC(15, 2) GENERATED ALWAYS AS (amount - fee) STORED\<close>: the stored
  column is computed from the row's \<open>amount\<close> and \<open>fee\<close> whenever the row is written, and
  the result must fit its type.
\<close>

definition withdrawals_generate :: "withdrawal \<Rightarrow> db_error + withdrawal" where
  "withdrawals_generate r =
     (if \<not> numeric_fits 15 (w_amount r) then Inl (NumericOverflow ''amount'')
      else if \<not> numeric_fits 10 (w_fee r) then Inl (NumericOverflow ''fee'')
      else if \<not> numeric_fits 15 (sql_sub (w_amount r) (w_fee r))
        then Inl (NumericOverflow ''net_amount'')
      else Inr (r\<lparr>w_net_amount := sql_sub (w_amount r) (w_fee r)\<rparr>))"

text \<open>A statement that gives the generated column a value is refused.\<close>

definition withdrawals_new_row :: "withdrawal_insert \<Rightarrow> db_error + withdrawal" where
  "withdrawals_new_row q =
     (if wi_net_amount q \<noteq> Omitted then Inl (GeneratedAlways ''net_amount'')
      else withdrawals_generate
        \<lparr>w_id = wi_id q,
         w_user_id = with_default None (wi_user_id q),
         w_withdrawal_account_id = with_default None (wi_withdrawal_account_id q),
         w_amount = with_default None (wi_amount q),
         w_currency = with_default (Some ''USD'') (wi_currency q),
         w_fee = with_default (Some 0) (wi_fee q),
         w_net_amount = None,
         w_status = with_default (Some ''pending'') (wi_status q)\<rparr>)"

definition withdrawals_assign :: "withdrawal_update \<Rightarrow> withdrawal \<Rightarrow> db_error + withdrawal" where
  "withdrawals_assign u r =
     (if wu_net_amount u \<noteq> Keep then Inl (GeneratedAlways ''net_amount'')
      else withdrawals_generate
        (r\<lparr>w_user_id := assigned (w_user_id r) (wu_user_id u),
           w_withdrawal_account_id :=
             assigned (w_withdrawal_account_id r) (wu_withdrawal_account_id u),
           w_amount := assigned (w_amount r) (wu_amount u),
           w_currency := assigned (w_currency r) (wu_currency u),
           w_fee := assigned (w_fee r) (wu_fee u),
           w_status := assigned (w_status r) (wu_status u)\<rparr>))"

definition users_read_own_withdrawals :: "withdrawal policy" where
  "users_read_own_withdrawals =
     \<lparr>pol_name = ''users_read_own_withdrawals'', pol_cmd = Select,
      pol_using = Some (own_row w_user_id), pol_with_check = None\<rparr>"

definition admins_read_all_withdrawals :: "withdrawal policy" where
  "admins_read_all_withdrawals =
     \<lparr>pol_name = ''admins_read_all_withdrawals'', pol_cmd = Select,
      pol_using = Some admin_caller, pol_with_check = None\<rparr>"

definition users_insert_own_withdrawals :: "withdrawal policy" where
  "users_insert_own_withdrawals =
     \<lparr>pol_name = ''users_insert_own_withdrawals'', pol_cmd = Insert,
      pol_using = None, pol_with_check = Some (own_pending_row w_user_id w_status)\<rparr>"

definition admins_update_withdrawals :: "withdrawal policy" where
  "admins_update_withdrawals =
     \<lparr>pol_name = ''admins_update_withdrawals'', pol_cmd = Update,
      pol_using = Some admin_caller, pol_with_check = Some admin_caller\<rparr>"

text \<open>
  The second script enables row-level security on \<^verbatim>\<open>public.withdrawals\<close> and creates
  no policy for it.
\<close>

fun withdrawals_policies :: "schema \<Rightarrow> withdrawal policy list" where
  "withdrawals_policies UsersBased =
     [users_read_own_withdrawals, admins_read_all_withdrawals,
      users_insert_own_withdrawals, admins_update_withdrawals]"
| "withdrawals_policies ProfilesBased = []"

definition withdrawals_select ::
  "schema \<Rightarrow> caller \<Rightarrow> ctx \<Rightarrow> (withdrawal \<Rightarrow> bool) \<Rightarrow> withdrawal list \<Rightarrow>
   db_error + withdrawal list" where
  "withdrawals_select g c ctx P t = select_rows (account_table g (ctx_users ctx)) (withdrawals_policies g) c P t"

definition withdrawals_insert ::
  "schema \<Rightarrow> caller \<Rightarrow> ctx \<Rightarrow> withdrawal_insert \<Rightarrow> withdrawal list \<Rightarrow>
   db_error + withdrawal list" where
  "withdrawals_insert g c ctx q t =
     (if wi_net_amount q \<noteq> Omitted then Inl (GeneratedAlways ''net_amount'')
      else insert_row (account_table g (ctx_users ctx)) (withdrawals_policies g)
             ''withdrawals'' c (withdrawals_constraints g ctx) withdrawals_keys
             (withdrawals_new_row q) t)"

definition withdrawals_update_row ::
  "schema \<Rightarrow> caller \<Rightarrow> ctx \<Rightarrow> withdrawal_update \<Rightarrow> withdrawal \<Rightarrow> db_error + withdrawal" where
  "withdrawals_update_row g c ctx u =
     update_row (withdrawals_policies g) ''withdrawals'' c (ctx_users ctx)
       (withdrawals_constraints g ctx) (withdrawals_assign u)"

text \<open>
  The refusal to assign the generated column comes first: it does not wait for the
  policies or for a row to match.
\<close>

definition withdrawals_update ::
  "schema \<Rightarrow> caller \<Rightarrow> ctx \<Rightarrow> withdrawal_update \<Rightarrow> (withdrawal \<Rightarrow> bool) \<Rightarrow> withdrawal list \<Rightarrow>
   db_error + withdrawal list" where
  "withdrawals_update g c ctx u P t =
     (if wu_net_amount u \<noteq> Keep then Inl (GeneratedAlways ''net_amount'')
      else update_table (account_table g (ctx_users ctx)) (withdrawals_policies g) ''withdrawals'' c
             (withdrawals_constraints g ctx) (withdrawals_assign u) P t)"

text \<open>
  The tables the constraints admit: any caller, the service role included, against any
  state of the tables referred to.
\<close>

definition withdrawals_reachable :: "schema \<Rightarrow> withdrawal list \<Rightarrow> bool" where
  "withdrawals_reachable g =
     reachable (\<lambda>(c, ctx, q). withdrawals_insert g c ctx q)
               (\<lambda>(c, ctx, u). withdrawals_update_row g c ctx u)"

section \<open>The deposits table\<close>

record deposit =
  d_id :: uuid
  d_user_id :: "uuid option"
  d_amount :: "numeric option"
  d_currency :: "string option"
  d_payment_method :: "string option"
  d_status :: "string option"

record deposit_insert =
  di_id :: uuid
  di_user_id :: "uuid arg"
  di_amount :: "numeric arg"
  di_currency :: "string arg"
  di_payment_method :: "string arg"
  di_status :: "string arg"

record deposit_update =
  du_user_id :: "uuid assign"
  du_amount :: "numeric assign"
  du_currency :: "string assign"
  du_payment_method :: "string assign"
  du_status :: "string assign"

definition deposit_currencies :: "string list" where
  "deposit_currencies = [''USD'', ''EUR'', ''GBP'', ''JPY'', ''CAD'', ''AUD'', ''CHF'']"

definition deposit_payment_methods :: "string list" where
  "deposit_payment_methods = [''bank_transfer'', ''credit_card'', ''crypto'', ''wire'']"

definition deposit_statuses :: "string list" where
  "deposit_statuses = [''pending'', ''under_review'', ''approved'', ''rejected'', ''completed'']"

fun deposits_constraints :: "schema \<Rightarrow> ctx \<Rightarrow> deposit \<Rightarrow> (bool \<times> db_error) list" where
  "deposits_constraints UsersBased ctx r =
     [(d_user_id r = None, NotNull ''user_id''),
      (d_amount r = None, NotNull ''amount''),
      (d_currency r = None, NotNull ''currency''),
      (d_payment_method r = None, NotNull ''payment_method''),
      (d_status r = None, NotNull ''status''),
      (\<not> check_passes (sql_gt (d_amount r) 0), CheckViolation ''amount''),
      (\<not> check_passes (sql_in (d_currency r) deposit_currencies), CheckViolation ''currency''),
      (\<not> check_passes (sql_in (d_payment_method r) deposit_payment_methods),
         CheckViolation ''payment_method''),
      (\<not> check_passes (sql_in (d_status r) deposit_statuses), CheckViolation ''status''),
      (\<not> user_exists ctx (d_user_id r), ForeignKey ''user_id'')]"
| "deposits_constraints ProfilesBased ctx r =
     [(d_user_id r = None, NotNull ''user_id''),
      (d_amount r = None, NotNull ''amount''),
      (\<not> check_passes (sql_gt (d_amount r) 0), CheckViolation ''amount''),
      (\<not> check_passes (sql_in (d_status r) deposit_statuses), CheckViolation ''status''),
      (\<not> user_exists ctx (d_user_id r), ForeignKey ''user_id'')]"

definition deposits_keys :: "deposit list \<Rightarrow> deposit \<Rightarrow> (bool \<times> db_error) list" where
  "deposits_keys t r = [(d_id r \<in> d_id ` set t, UniqueViolation ''deposits_pkey'')]"

definition deposits_typed :: "deposit \<Rightarrow> db_error + deposit" where
  "deposits_typed r =
     (if \<not> numeric_fits 15 (d_amount r) then Inl (NumericOverflow ''amount'') else Inr r)"

definition deposits_new_row :: "deposit_insert \<Rightarrow> db_error + deposit" where
  "deposits_new_row q =
     deposits_typed
       \<lparr>d_id = di_id q,
        d_user_id = with_default None (di_user_id q),
        d_amount = with_default None (di_amount q),
        d_currency = with_default (Some ''USD'') (di_currency q),
        d_payment_method = with_default None (di_payment_method q),
        d_status = with_default (Some ''pending'') (di_status q)\<rparr>"

definition deposits_assign :: "deposit_update \<Rightarrow> deposit \<Rightarrow> db_error + deposit" where
  "deposits_assign u r =
     deposits_typed
       (r\<lparr>d_user_id := assigned (d_user_id r) (du_user_id u),
          d_amount := assigned (d_amount r) (du_amount u),
          d_currency := assigned (d_currency r) (du_currency u),
          d_payment_method := assigned (d_payment_method r) (du_payment_method u),
          d_status := assigned (d_status r) (du_status u)\<rparr>)"

definition users_read_own_deposits :: "deposit policy" where
  "users_read_own_deposits =
     \<lparr>pol_name = ''users_read_own_deposits'', pol_cmd = Select,
      pol_using = Some (own_row d_user_id), pol_with_check = None\<rparr>"

definition admins_read_all_deposits :: "deposit policy" where
  "admins_read_all_deposits =
     \<lparr>pol_name = ''admins_read_all_deposits'', pol_cmd = Select,
      pol_using = Some admin_caller, pol_with_check = None\<rparr>"

definition users_insert_own_deposits :: "deposit policy" where
  "users_insert_own_deposits =
     \<lparr>pol_name = ''users_insert_own_deposits'', pol_cmd = Insert,
      pol_using = None, pol_with_check = Some (own_pending_row d_user_id d_status)\<rparr>"

definition admins_update_deposits :: "deposit policy" where
  "admins_update_deposits =
     \<lparr>pol_name = ''admins_update_deposits'', pol_cmd = Update,
      pol_using = Some admin_caller, pol_with_check = Some admin_caller\<rparr>"

fun deposits_policies :: "schema \<Rightarrow> deposit policy list" where
  "deposits_policies UsersBased =
     [users_read_own_deposits, admins_read_all_deposits,
      users_insert_own_deposits, admins_update_deposits]"
| "deposits_policies ProfilesBased = [users_read_own_deposits, admins_read_all_deposits]"

definition deposits_select ::
  "schema \<Rightarrow> caller \<Rightarrow> ctx \<Rightarrow> (deposit \<Rightarrow> bool) \<Rightarrow> deposit list \<Rightarrow>
   db_error + deposit list" where
  "deposits_select g c ctx P t = select_rows (account_table g (ctx_users ctx)) (deposits_policies g) c P t"

definition deposits_insert ::
  "schema \<Rightarrow> caller \<Rightarrow> ctx \<Rightarrow> deposit_insert \<Rightarrow> deposit list \<Rightarrow> db_error + deposit list" where
  "deposits_insert g c ctx q t =
     insert_row (account_table g (ctx_users ctx)) (deposits_policies g) ''deposits'' c
       (deposits_constraints g ctx) deposits_keys (deposits_new_row q) t"

definition deposits_update_row ::
  "schema \<Rightarrow> caller \<Rightarrow> ctx \<Rightarrow> deposit_update \<Rightarrow> deposit \<Rightarrow> db_error + deposit" where
  "deposits_update_row g c ctx u =
     update_row (deposits_policies g) ''deposits'' c (ctx_users ctx)
       (deposits_constraints g ctx) (deposits_assign u)"

definition deposits_update ::
  "schema \<Rightarrow> caller \<Rightarrow> ctx \<Rightarrow> deposit_update \<Rightarrow> (deposit \<Rightarrow> bool) \<Rightarrow> deposit list \<Rightarrow>
   db_error + deposit list" where
  "deposits_update g c ctx u P t =
     update_table (account_table g (ctx_users ctx)) (deposits_policies g) ''deposits'' c
       (deposits_constraints g ctx) (deposits_assign u) P t"

definition deposits_reachable :: "schema \<Rightarrow> deposit list \<Rightarrow> bool" where
  "deposits_reachable g =
     reachable (\<lambda>(c, ctx, q). deposits_insert g c ctx q)
               (\<lambda>(c, ctx, u). deposits_update_row g c ctx u)"

section \<open>KYC submissions: \<^verbatim>\<open>kyc_verifications\<close> and \<^verbatim>\<open>kyc_documents\<close>\<close>

text \<open>
  The document URLs, the review columns and the timestamps are left out; a statement
  does not assign the keys \<open>id\<close> and \<open>user_id\<close>. A date is a day number.
\<close>

record kyc =
  k_id :: uuid
  k_user_id :: "uuid option"
  k_id_type :: "string option"
  k_id_number :: "string option"
  k_full_name :: "string option"
  k_date_of_birth :: "nat option"
  k_country :: "string option"
  k_status :: "string option"

record kyc_update =
  ku_id_type :: "string assign"
  ku_id_number :: "string assign"
  ku_full_name :: "string assign"
  ku_date_of_birth :: "nat assign"
  ku_country :: "string assign"
  ku_status :: "string assign"

definition kyc_id_types :: "string list" where
  "kyc_id_types = [''passport'', ''driver_license'', ''national_id'', ''government_id'']"

definition kyc_record_statuses :: "string list" where
  "kyc_record_statuses = [''pending'', ''under_review'', ''approved'', ''rejected'']"

fun kyc_constraints :: "schema \<Rightarrow> ctx \<Rightarrow> kyc \<Rightarrow> (bool \<times> db_error) list" where
  "kyc_constraints UsersBased ctx r =
     [(k_user_id r = None, NotNull ''user_id''),
      (k_id_type r = None, NotNull ''id_type''),
      (k_id_number r = None, NotNull ''id_number''),
      (k_full_name r = None, NotNull ''full_name''),
      (k_date_of_birth r = None, NotNull ''date_of_birth''),
      (k_country r = None, NotNull ''country''),
      (k_status r = None, NotNull ''status''),
      (\<not> check_passes (sql_in (k_id_type r) kyc_id_types), CheckViolation ''id_type''),
      (\<not> check_passes (sql_in (k_status r) kyc_record_statuses), CheckViolation ''status''),
      (\<not> user_exists ctx (k_user_id r), ForeignKey ''user_id'')]"
| "kyc_constraints ProfilesBased ctx r =
     [(k_user_id r = None, NotNull ''user_id''),
      (\<not> check_passes (sql_in (k_id_type r) kyc_id_types), CheckViolation ''id_type''),
      (\<not> check_passes (sql_in (k_status r) kyc_record_statuses), CheckViolation ''status''),
      (\<not> user_exists ctx (k_user_id r), ForeignKey ''user_id'')]"

definition kyc_assign :: "kyc_update \<Rightarrow> kyc \<Rightarrow> db_error + kyc" where
  "kyc_assign u r =
     Inr (r\<lparr>k_id_type := assigned (k_id_type r) (ku_id_type u),
            k_id_number := assigned (k_id_number r) (ku_id_number u),
            k_full_name := assigned (k_full_name r) (ku_full_name u),
            k_date_of_birth := assigned (k_date_of_birth r) (ku_date_of_birth u),
            k_country := assigned (k_country r) (ku_country u),
            k_status := assigned (k_status r) (ku_status u)\<rparr>)"

definition users_read_own_kyc :: "kyc policy" where
  "users_read_own_kyc =
     \<lparr>pol_name = ''users_read_own_kyc'', pol_cmd = Select,
      pol_using = Some (own_row k_user_id), pol_with_check = None\<rparr>"

definition admins_read_all_kyc :: "kyc policy" where
  "admins_read_all_kyc =
     \<lparr>pol_name = ''admins_read_all_kyc'', pol_cmd = Select,
      pol_using = Some admin_caller, pol_with_check = None\<rparr>"

definition users_insert_own_kyc :: "kyc policy" where
  "users_insert_own_kyc =
     \<lparr>pol_name = ''users_insert_own_kyc'', pol_cmd = Insert,
      pol_using = None, pol_with_check = Some (own_row k_user_id)\<rparr>"

definition users_update_own_kyc :: "kyc policy" where
  "users_update_own_kyc =
     \<lparr>pol_name = ''users_update_own_kyc'', pol_cmd = Update,
      pol_using = Some (own_pending_row k_user_id k_status),
      pol_with_check = Some (own_row k_user_id)\<rparr>"

definition admins_update_kyc :: "kyc policy" where
  "admins_update_kyc =
     \<lparr>pol_name = ''admins_update_kyc'', pol_cmd = Update,
      pol_using = Some admin_caller, pol_with_check = Some admin_caller\<rparr>"

definition users_insert_kyc :: "kyc policy" where
  "users_insert_kyc =
     \<lparr>pol_name = ''users_insert_kyc'', pol_cmd = Insert,
      pol_using = None, pol_with_check = Some (own_row k_user_id)\<rparr>"

definition users_update_kyc :: "kyc policy" where
  "users_update_kyc =
     \<lparr>pol_name = ''users_update_kyc'', pol_cmd = Update,
      pol_using = Some (own_row k_user_id), pol_with_check = Some (own_row k_user_id)\<rparr>"

fun kyc_policies :: "schema \<Rightarrow> kyc policy list" where
  "kyc_policies UsersBased =
     [users_read_own_kyc, admins_read_all_kyc, users_insert_own_kyc,
      users_update_own_kyc, admins_update_kyc]"
| "kyc_policies ProfilesBased =
     [users_read_own_kyc, admins_read_all_kyc, users_insert_kyc, users_update_kyc]"

fun kyc_table :: "schema \<Rightarrow> string" where
  "kyc_table UsersBased = ''kyc_verifications''"
| "kyc_table ProfilesBased = ''kyc_documents''"

definition kyc_select ::
  "schema \<Rightarrow> caller \<Rightarrow> ctx \<Rightarrow> (kyc \<Rightarrow> bool) \<Rightarrow> kyc list \<Rightarrow>
   db_error + kyc list" where
  "kyc_select g c ctx P t = select_rows (account_table g (ctx_users ctx)) (kyc_policies g) c P t"

definition kyc_update ::
  "schema \<Rightarrow> caller \<Rightarrow> ctx \<Rightarrow> kyc_update \<Rightarrow> (kyc \<Rightarrow> bool) \<Rightarrow> kyc list \<Rightarrow> db_error + kyc list" where
  "kyc_update g c ctx u P t =
     update_table (account_table g (ctx_users ctx)) (kyc_policies g) (kyc_table g) c
       (kyc_constraints g ctx) (kyc_assign u) P t"

section \<open>The withdrawal_accounts table\<close>

text \<open>
  The table is declared alike in both scripts. The columns the constraints read are
  kept; the other bank and crypto details, the flags and the timestamps are left out.
\<close>

record withdrawal_account =
  a_id :: uuid
  a_user_id :: "uuid option"
  a_account_type :: "string option"
  a_account_holder_name :: "string option"
  a_account_number :: "string option"
  a_crypto_type :: "string option"
  a_crypto_address :: "string option"
  a_paypal_email :: "string option"

record withdrawal_account_insert =
  ai_id :: uuid
  ai_user_id :: "uuid arg"
  ai_account_type :: "string arg"
  ai_account_holder_name :: "string arg"
  ai_account_number :: "string arg"
  ai_crypto_type :: "string arg"
  ai_crypto_address :: "string arg"
  ai_paypal_email :: "string arg"

definition account_types :: "string list" where
  "account_types = [''bank'', ''crypto'', ''paypal'']"

definition crypto_types :: "string list" where
  "crypto_types =
     [''bitcoin'', ''ethereum'', ''litecoin'', ''ripple'', ''solana'', ''usdc'', ''tether'']"

text \<open>The table's \<^verbatim>\<open>CHECK (CASE WHEN ... END)\<close>: the first branch whose condition is true.\<close>

definition withdrawal_accounts_check :: "withdrawal_account \<Rightarrow> sql_bool" where
  "withdrawal_accounts_check r =
     (if qual_passes (sql_eq (a_account_type r) (Some ''bank''))
        then sql_and (is_not_null (a_account_number r)) (is_not_null (a_account_holder_name r))
      else if qual_passes (sql_eq (a_account_type r) (Some ''crypto''))
        then sql_and (is_not_null (a_crypto_address r)) (is_not_null (a_crypto_type r))
      else if qual_passes (sql_eq (a_account_type r) (Some ''paypal''))
        then is_not_null (a_paypal_email r)
      else Some False)"

definition withdrawal_accounts_constraints ::
  "ctx \<Rightarrow> withdrawal_account \<Rightarrow> (bool \<times> db_error) list" where
  "withdrawal_accounts_constraints ctx r =
     [(a_user_id r = None, NotNull ''user_id''),
      (a_account_type r = None, NotNull ''account_type''),
      (\<not> check_passes (sql_in (a_account_type r) account_types), CheckViolation ''account_type''),
      (\<not> check_passes (sql_in (a_crypto_type r) crypto_types), CheckViolation ''crypto_type''),
      (\<not> check_passes (withdrawal_accounts_check r), CheckViolation ''withdrawal_accounts''),
      (\<not> user_exists ctx (a_user_id r), ForeignKey ''user_id'')]"

definition withdrawal_accounts_keys ::
  "withdrawal_account list \<Rightarrow> withdrawal_account \<Rightarrow> (bool \<times> db_error) list" where
  "withdrawal_accounts_keys t r =
     [(a_id r \<in> a_id ` set t, UniqueViolation ''withdrawal_accounts_pkey'')]"

definition withdrawal_accounts_new_row ::
  "withdrawal_account_insert \<Rightarrow> db_error + withdrawal_account" where
  "withdrawal_accounts_new_row q =
     Inr \<lparr>a_id = ai_id q,
          a_user_id = with_default None (ai_user_id q),
          a_account_type = with_default None (ai_account_type q),
          a_account_holder_name = with_default None (ai_account_holder_name q),
          a_account_number = with_default None (ai_account_number q),
          a_crypto_type = with_default None (ai_crypto_type q),
          a_crypto_address = with_default None (ai_crypto_address q),
          a_paypal_email = with_default None (ai_paypal_email q)\<rparr>"

definition users_read_own_withdrawal_accounts :: "withdrawal_account policy" where
  "users_read_own_withdrawal_accounts =
     \<lparr>pol_name = ''users_read_own_withdrawal_accounts'', pol_cmd = Select,
      pol_using = Some (own_row a_user_id), pol_with_check = None\<rparr>"

definition admins_read_all_withdrawal_accounts :: "withdrawal_account policy" where
  "admins_read_all_withdrawal_accounts =
     \<lparr>pol_name = ''admins_read_all_withdrawal_accounts'', pol_cmd = Select,
      pol_using = Some admin_caller, pol_with_check = None\<rparr>"

definition users_insert_own_withdrawal_accounts :: "withdrawal_account policy" where
  "users_insert_own_withdrawal_accounts =
     \<lparr>pol_name = ''users_insert_own_withdrawal_accounts'', pol_cmd = Insert,
      pol_using = None, pol_with_check = Some (own_row a_user_id)\<rparr>"

definition users_update_own_withdrawal_accounts :: "withdrawal_account policy" where
  "users_update_own_withdrawal_accounts =
     \<lparr>pol_name = ''users_update_own_withdrawal_accounts'', pol_cmd = Update,
      pol_using = Some (own_row a_user_id), pol_with_check = Some (own_row a_user_id)\<rparr>"

definition users_delete_own_withdrawal_accounts :: "withdrawal_account policy" where
  "users_delete_own_withdrawal_accounts =
     \<lparr>pol_name = ''users_delete_own_withdrawal_accounts'', pol_cmd = Delete,
      pol_using = Some (own_row a_user_id), pol_with_check = None\<rparr>"

fun withdrawal_accounts_policies :: "schema \<Rightarrow> withdrawal_account policy list" where
  "withdrawal_accounts_policies UsersBased =
     [users_read_own_withdrawal_accounts, admins_read_all_withdrawal_accounts,
      users_insert_own_withdrawal_accounts, users_update_own_withdrawal_accounts,
      users_delete_own_withdrawal_accounts]"
| "withdrawal_accounts_policies ProfilesBased =
     [users_read_own_withdrawal_accounts, admins_read_all_withdrawal_accounts]"

definition withdrawal_accounts_insert ::
  "schema \<Rightarrow> caller \<Rightarrow> ctx \<Rightarrow> withdrawal_account_insert \<Rightarrow> withdrawal_account list \<Rightarrow>
   db_error + withdrawal_account list" where
  "withdrawal_accounts_insert g c ctx q t =
     insert_row (account_table g (ctx_users ctx)) (withdrawal_accounts_policies g)
       ''withdrawal_accounts'' c
       (withdrawal_accounts_constraints ctx) withdrawal_accounts_keys
       (withdrawal_accounts_new_row q) t"

section \<open>The account_balances table\<close>

text \<open>Only the second script declares this table. A statement does not assign its keys.\<close>

record account_balance =
  b_id :: uuid
  b_user_id :: "uuid option"
  b_main_balance :: "numeric option"
  b_profit_balance :: "numeric option"
  b_total_deposited :: "numeric option"
  b_total_withdrawn :: "numeric option"

record account_balance_insert =
  bi_id :: uuid
  bi_user_id :: "uuid arg"
  bi_main_balance :: "numeric arg"
  bi_profit_balance :: "numeric arg"
  bi_total_deposited :: "numeric arg"
  bi_total_withdrawn :: "numeric arg"

record account_balance_update =
  bu_main_balance :: "numeric assign"
  bu_profit_balance :: "numeric assign"
  bu_total_deposited :: "numeric assign"
  bu_total_withdrawn :: "numeric assign"

definition account_balances_constraints ::
  "ctx \<Rightarrow> account_balance \<Rightarrow> (bool \<times> db_error) list" where
  "account_balances_constraints ctx r =
     [(b_user_id r = None, NotNull ''user_id''),
      (\<not> check_passes (sql_ge (b_main_balance r) 0), CheckViolation ''main_balance''),
      (\<not> check_passes (sql_ge (b_profit_balance r) 0), CheckViolation ''profit_balance''),
      (\<not> check_passes (sql_ge (b_total_deposited r) 0), CheckViolation ''total_deposited''),
      (\<not> check_passes (sql_ge (b_total_withdrawn r) 0), CheckViolation ''total_withdrawn''),
      (\<not> user_exists ctx (b_user_id r), ForeignKey ''user_id'')]"

definition account_balances_keys ::
  "account_balance list \<Rightarrow> account_balance \<Rightarrow> (bool \<times> db_error) list" where
  "account_balances_keys t r =
     [(b_id r \<in> b_id ` set t, UniqueViolation ''account_balances_pkey''),
      (b_user_id r \<in> b_user_id ` set t, UniqueViolation ''account_balances_user_id_key'')]"

definition account_balances_typed :: "account_balance \<Rightarrow> db_error + account_balance" where
  "account_balances_typed r =
     (if \<not> numeric_fits 15 (b_main_balance r) then Inl (NumericOverflow ''main_balance'')
      else if \<not> numeric_fits 15 (b_profit_balance r) then Inl (NumericOverflow ''profit_balance'')
      else if \<not> numeric_fits 15 (b_total_deposited r)
        then Inl (NumericOverflow ''total_deposited'')
      else if \<not> numeric_fits 15 (b_total_withdrawn r)
        then Inl (NumericOverflow ''total_withdrawn'')
      else Inr r)"

definition account_balances_new_row :: "account_balance_insert \<Rightarrow> db_error + account_balance" where
  "account_balances_new_row q =
     account_balances_typed
       \<lparr>b_id = bi_id q,
        b_user_id = with_default None (bi_user_id q),
        b_main_balance = with_default (Some 0) (bi_main_balance q),
        b_profit_balance = with_default (Some 0) (bi_profit_balance q),
        b_total_deposited = with_default (Some 0) (bi_total_deposited q),
        b_total_withdrawn = with_default (Some 0) (bi_total_withdrawn q)\<rparr>"

definition account_balances_assign ::
  "account_balance_update \<Rightarrow> account_balance \<Rightarrow> db_error + account_balance" where
  "account_balances_assign u r =
     account_balances_typed
       (r\<lparr>b_main_balance := assigned (b_main_balance r) (bu_main_balance u),
          b_profit_balance := assigned (b_profit_balance r) (bu_profit_balance u),
          b_total_deposited := assigned (b_total_deposited r) (bu_total_deposited u),
          b_total_withdrawn := assigned (b_total_withdrawn r) (bu_total_withdrawn u)\<rparr>)"

definition users_read_own_balances :: "account_balance policy" where
  "users_read_own_balances =
     \<lparr>pol_name = ''users_read_own_balances'', pol_cmd = Select,
      pol_using = Some (own_row b_user_id), pol_with_check = None\<rparr>"

definition admins_read_all_balances :: "account_balance policy" where
  "admins_read_all_balances =
     \<lparr>pol_name = ''admins_read_all_balances'', pol_cmd = Select,
      pol_using = Some admin_caller, pol_with_check = None\<rparr>"

definition account_balances_policies :: "account_balance policy list" where
  "account_balances_policies = [users_read_own_balances, admins_read_all_balances]"

definition account_balances_insert ::
  "caller \<Rightarrow> ctx \<Rightarrow> account_balance_insert \<Rightarrow> account_balance list \<Rightarrow>
   db_error + account_balance list" where
  "account_balances_insert c ctx q t =
     insert_row (account_table ProfilesBased (ctx_users ctx)) account_balances_policies
       ''account_balances'' c
       (account_balances_constraints ctx) account_balances_keys (account_balances_new_row q) t"

definition account_balances_update_row ::
  "caller \<Rightarrow> ctx \<Rightarrow> account_balance_update \<Rightarrow> account_balance \<Rightarrow> db_error + account_balance" where
  "account_balances_update_row c ctx u =
     update_row account_balances_policies ''account_balances'' c (ctx_users ctx)
       (account_balances_constraints ctx) (account_balances_assign u)"

definition account_balances_reachable :: "account_balance list \<Rightarrow> bool" where
  "account_balances_reachable =
     reachable (\<lambda>(c, ctx, q). account_balances_insert c ctx q)
               (\<lambda>(c, ctx, u). account_balances_update_row c ctx u)"

section \<open>The view admin_dashboard_summary\<close>

text \<open>
  The first script defines the view over its own tables. A view is read with the rights
  of its owner, so the counts are over all rows, whoever reads it.
\<close>

record database =
  db_users :: "user_row list"
  db_kyc_verifications :: "kyc list"
  db_deposits :: "deposit list"
  db_withdrawals :: "withdrawal list"

record dashboard_summary =
  total_users :: nat
  kyc_approved_users :: nat
  pending_kyc :: nat
  pending_deposits :: nat
  pending_withdrawals :: nat
  total_deposits :: numeric
  total_withdrawals :: numeric

text \<open>\<^verbatim>\<open>SELECT COUNT(*) FROM t WHERE col = lit\<close>\<close>

fun count_where :: "('r \<Rightarrow> string option) \<Rightarrow> string \<Rightarrow> 'r list \<Rightarrow> nat" where
  "count_where col lit [] = 0"
| "count_where col lit (r # rs) =
     (if qual_passes (sql_eq (col r) (Some lit)) then Suc (count_where col lit rs)
      else count_where col lit rs)"

text \<open>\<^verbatim>\<open>SELECT COALESCE(SUM(amount), 0) FROM t WHERE col = lit\<close>: \<^verbatim>\<open>SUM\<close> skips \<^verbatim>\<open>NULL\<close>s.\<close>

fun sum_where ::
  "('r \<Rightarrow> numeric option) \<Rightarrow> ('r \<Rightarrow> string option) \<Rightarrow> string \<Rightarrow> 'r list \<Rightarrow> numeric" where
  "sum_where amount col lit [] = 0"
| "sum_where amount col lit (r # rs) =
     (if qual_passes (sql_eq (col r) (Some lit))
      then (case amount r of None \<Rightarrow> 0 | Some v \<Rightarrow> v) + sum_where amount col lit rs
      else sum_where amount col lit rs)"

definition admin_dashboard_summary :: "database \<Rightarrow> dashboard_summary" where
  "admin_dashboard_summary db =
     \<lparr>total_users = count_where u_role ''user'' (db_users db),
      kyc_approved_users = count_where u_kyc_status ''approved'' (db_users db),
      pending_kyc = count_where k_status ''pending'' (db_kyc_verifications db),
      pending_deposits = count_where d_status ''pending'' (db_deposits db),
      pending_withdrawals = count_where w_status ''pending'' (db_withdrawals db),
      total_deposits = sum_where d_amount d_status ''completed'' (db_deposits db),
      total_withdrawals = sum_where w_amount w_status ''completed'' (db_withdrawals db)\<rparr>"

section \<open>The client pages\<close>

text \<open>
  A handler of a page awaits calls on the hosted backend and acts on the page between
  them. The model is handed the outcome of each call the handler may await, an error
  thrown (with its message) or a value returned, and gives the handler's calls and
  actions in the order they happen. A call of the client that fails need not throw: it
  may resolve to an object with an \<open>error\<close> beside a \<^verbatim>\<open>null\<close> \<open>data\<close>, as the signup
  handler expects of \<open>signUp\<close>.

  The referral code, the one string a handler computes on, is a JavaScript string, the
  list of its UTF-16 code units; the other strings are passed on unread.
\<close>

type_synonym js_string = "nat list"

datatype 'a outcome = Throws string | Returns 'a

datatype ui_event =
    PreventDefault
  | SetLoading bool
  | SetUser uuid
  | SetIsAdmin bool
  | ToastError string
  | ToastSuccess string
  | ConsoleError string
  | Navigate string
  | AuthGetUser
  | AuthSignOut
  | AuthSignUp string string
  | Rpc string uuid string
  | ProfilesUpdate uuid
  | ProfilesSelect js_string
  | ReferralsInsert uuid uuid int bool
  | FetchStats

subsection \<open>AdminDashboard.tsx\<close>

record admin_env =
  getUser_result :: "uuid option outcome"
  has_role_result :: "bool option outcome"
  signOut_result :: "unit outcome"

text \<open>
  \<open>checkAdminAccess\<close>: the \<^verbatim>\<open>catch\<close> block logs and navigates, the \<^verbatim>\<open>finally\<close> block clears
  \<open>loading\<close>. \<open>roleData\<close> is \<^verbatim>\<open>null\<close>, \<^verbatim>\<open>false\<close> or \<^verbatim>\<open>true\<close>; it is \<^verbatim>\<open>null\<close> when the call
  resolves with an error.
\<close>

definition auth_error :: "ui_event list" where
  "auth_error = [ConsoleError ''Auth error:'', Navigate ''/admin/login'']"

definition checkAdminAccess :: "admin_env \<Rightarrow> ui_event list" where
  "checkAdminAccess env =
     AuthGetUser #
     (case getUser_result env of
        Throws m \<Rightarrow> auth_error
      | Returns None \<Rightarrow> [Navigate ''/admin/login'']
      | Returns (Some uid) \<Rightarrow>
          SetUser uid # Rpc ''has_role'' uid ''admin'' #
          (case has_role_result env of
             Throws m \<Rightarrow> auth_error
           | Returns roleData \<Rightarrow>
               if roleData \<noteq> Some True then
                 ToastError ''Unauthorized: Admin access required'' # AuthSignOut #
                 (case signOut_result env of
                    Throws m \<Rightarrow> auth_error
                  | Returns _ \<Rightarrow> [Navigate ''/admin/login''])
               else [SetIsAdmin True, FetchStats]))
     @ [SetLoading False]"

record admin_state =
  ad_user :: "uuid option"
  isAdmin :: bool
  ad_loading :: bool

definition admin_initial :: admin_state where
  "admin_initial = \<lparr>ad_user = None, isAdmin = False, ad_loading = True\<rparr>"

fun admin_apply :: "admin_state \<Rightarrow> ui_event \<Rightarrow> admin_state" where
  "admin_apply s (SetUser uid) = s\<lparr>ad_user := Some uid\<rparr>"
| "admin_apply s (SetIsAdmin b) = s\<lparr>isAdmin := b\<rparr>"
| "admin_apply s (SetLoading b) = s\<lparr>ad_loading := b\<rparr>"
| "admin_apply s _ = s"

datatype admin_screen = LoadingScreen | AccessDenied | AdminContent

definition admin_render :: "admin_state \<Rightarrow> admin_screen" where
  "admin_render s =
     (if ad_loading s then LoadingScreen
      else if \<not> isAdmin s then AccessDenied
      else AdminContent)"

text \<open>The page after the effect that runs \<open>checkAdminAccess\<close> on mount.\<close>

definition admin_loaded :: "admin_env \<Rightarrow> admin_state" where
  "admin_loaded env = foldl admin_apply admin_initial (checkAdminAccess env)"

text \<open>
  Of a load: whether the role check was made and returned, and whether it confirmed the
  admin role.
\<close>

definition role_check_returned :: "admin_env \<Rightarrow> bool" where
  "role_check_returned env =
     (case getUser_result env of
        Returns (Some uid) \<Rightarrow> (case has_role_result env of Returns d \<Rightarrow> True | Throws m \<Rightarrow> False)
      | _ \<Rightarrow> False)"

definition role_confirmed :: "admin_env \<Rightarrow> bool" where
  "role_confirmed env =
     (case getUser_result env of
        Returns (Some uid) \<Rightarrow> has_role_result env = Returns (Some True)
      | _ \<Rightarrow> False)"

subsection \<open>The signup page\<close>

record signup_form =
  fullName :: string
  email :: string
  password :: string
  phone :: string
  dob :: string
  country :: string
  referralCode :: js_string
  agreedToTerms :: bool

text \<open>
  What the handler is handed. \<open>signUp_result\<close> is the pair \<open>(data.user, error)\<close> of the
  resolved call, the error as its message. \<open>referrer_result\<close> is the pair \<open>(data, error)\<close>
  of the resolved lookup, and \<open>profile_update_result\<close> and \<open>referral_insert_result\<close> are
  the \<open>error\<close> of the resolved update and insert; of these three the handler reads the
  lookup's \<open>data\<close> and nothing else. \<open>toUpperCase\<close> is the runtime's
  \<^verbatim>\<open>String.prototype.toUpperCase\<close>, whose case tables are not part of the repository.
\<close>

record signup_env =
  signUp_result :: "(uuid option \<times> string option) outcome"
  profile_update_result :: "string option outcome"
  referrer_result :: "(uuid option \<times> string option) outcome"
  referral_insert_result :: "string option outcome"
  toUpperCase :: "js_string \<Rightarrow> js_string"

text \<open>
  \<^verbatim>\<open>String.prototype.trim\<close> strips the white space and the line terminators of
  ECMAScript: U+0009 to U+000D, U+0020, U+00A0, U+1680, U+2000 to U+200A, U+2028, U+2029,
  U+202F, U+205F, U+3000 and U+FEFF.
\<close>

definition js_whitespace :: "nat \<Rightarrow> bool" where
  "js_whitespace u =
     ((0x09 \<le> u \<and> u \<le> 0x0D) \<or> u = 0x20 \<or> u = 0xA0 \<or> u = 0x1680 \<or>
      (0x2000 \<le> u \<and> u \<le> 0x200A) \<or> u = 0x2028 \<or> u = 0x2029 \<or> u = 0x202F \<or>
      u = 0x205F \<or> u = 0x3000 \<or> u = 0xFEFF)"

definition js_trim :: "js_string \<Rightarrow> js_string" where
  "js_trim s = rev (dropWhile js_whitespace (rev (dropWhile js_whitespace s)))"

text \<open>\<^verbatim>\<open>toast.error(error.message || 'Signup failed')\<close>\<close>

definition signup_failed :: "string \<Rightarrow> ui_event list" where
  "signup_failed m = [ToastError (if m \<noteq> [] then m else ''Signup failed'')]"

text \<open>
  The inner \<^verbatim>\<open>try\<close> block: its \<^verbatim>\<open>catch\<close> logs a thrown error and goes on. The \<open>error\<close> of
  a resolved lookup or insert is not read.
\<close>

definition signup_referral :: "signup_form \<Rightarrow> signup_env \<Rightarrow> uuid \<Rightarrow> ui_event list" where
  "signup_referral f env uid =
     (if referralCode f \<noteq> [] \<and> js_trim (referralCode f) \<noteq> [] then
        ProfilesSelect (toUpperCase env (referralCode f)) #
        (case referrer_result env of
           Throws m \<Rightarrow> [ConsoleError ''Referral error:'']
         | Returns (None, err) \<Rightarrow> []
         | Returns (Some referrer, err) \<Rightarrow>
             ReferralsInsert referrer uid 50 False #
             (case referral_insert_result env of
                Throws m \<Rightarrow> [ConsoleError ''Referral error:'']
              | Returns err' \<Rightarrow> []))
      else [])"

definition account_created :: string where
  "account_created =
     ''Account created successfully! Please check your email to verify your account.''"

definition handleSignup :: "signup_form \<Rightarrow> signup_env \<Rightarrow> ui_event list" where
  "handleSignup f env =
     PreventDefault #
     (if \<not> agreedToTerms f then [ToastError ''Please agree to the Terms & Conditions'']
      else
        SetLoading True # AuthSignUp (email f) (password f) #
        (case signUp_result env of
           Throws m \<Rightarrow> signup_failed m
         | Returns (user, Some m) \<Rightarrow> signup_failed m
         | Returns (None, None) \<Rightarrow> []
         | Returns (Some uid, None) \<Rightarrow>
             ProfilesUpdate uid #
             (case profile_update_result env of
                Throws m \<Rightarrow> signup_failed m
              | Returns _ \<Rightarrow>
                  signup_referral f env uid @
                  [ToastSuccess account_created, Navigate ''/login'']))
        @ [SetLoading False])"

text \<open>The calls that leave the page: authentication, remote procedures and table access.\<close>

fun backend_call :: "ui_event \<Rightarrow> bool" where
  "backend_call AuthGetUser = True"
| "backend_call AuthSignOut = True"
| "backend_call (AuthSignUp e p) = True"
| "backend_call (Rpc f uid r) = True"
| "backend_call (ProfilesUpdate uid) = True"
| "backend_call (ProfilesSelect code) = True"
| "backend_call (ReferralsInsert a b n p) = True"
| "backend_call FetchStats = True"
| "backend_call _ = False"

fun is_toast_error :: "ui_event \<Rightarrow> bool" where
  "is_toast_error (ToastError m) = True"
| "is_toast_error _ = False"

fun is_profiles_select :: "ui_event \<Rightarrow> bool" where
  "is_profiles_select (ProfilesSelect code) = True"
| "is_profiles_select _ = False"

section \<open>Example rows\<close>

definition example_users :: "user_row list" where
  "example_users =
     [\<lparr>u_id = 1, u_full_name = Some ''Ada Admin'', u_email = Some ''ada@example.com'',
       u_phone = None, u_role = Some ''admin'', u_kyc_status = Some ''approved'',
       u_account_status = Some ''active''\<rparr>,
      \<lparr>u_id = 2, u_full_name = Some ''Uma User'', u_email = Some ''uma@example.com'',
       u_phone = None, u_role = Some ''user'', u_kyc_status = Some ''pending'',
       u_account_status = Some ''active''\<rparr>]"

definition example_ctx :: ctx where
  "example_ctx = \<lparr>ctx_users = example_users, ctx_withdrawal_accounts = {7}\<rparr>"

definition example_withdrawal_insert :: withdrawal_insert where
  "example_withdrawal_insert =
     \<lparr>wi_id = 20, wi_user_id = Given (Some 2), wi_withdrawal_account_id = Given (Some 7),
      wi_amount = Given (Some 10000), wi_currency = Omitted, wi_fee = Given (Some 500),
      wi_net_amount = Omitted, wi_status = Omitted\<rparr>"

definition example_withdrawal :: withdrawal where
  "example_withdrawal =
     \<lparr>w_id = 20, w_user_id = Some 2, w_withdrawal_account_id = Some 7,
      w_amount = Some 10000, w_currency = Some ''USD'', w_fee = Some 500,
      w_net_amount = Some 9500, w_status = Some ''pending''\<rparr>"

definition example_fee_update :: withdrawal_update where
  "example_fee_update =
     \<lparr>wu_user_id = Keep, wu_withdrawal_account_id = Keep, wu_amount = Keep,
      wu_currency = Keep, wu_fee = SetTo (Some 700), wu_net_amount = Keep, wu_status = Keep\<rparr>"

definition example_negative_fee_insert :: withdrawal_insert where
  "example_negative_fee_insert =
     \<lparr>wi_id = 21, wi_user_id = Given (Some 2), wi_withdrawal_account_id = Given (Some 7),
      wi_amount = Given (Some 100), wi_currency = Omitted, wi_fee = Given (Some (- 500)),
      wi_net_amount = Omitted, wi_status = Omitted\<rparr>"

definition example_negative_fee_withdrawal :: withdrawal where
  "example_negative_fee_withdrawal =
     \<lparr>w_id = 21, w_user_id = Some 2, w_withdrawal_account_id = Some 7,
      w_amount = Some 100, w_currency = Some ''USD'', w_fee = Some (- 500),
      w_net_amount = Some 600, w_status = Some ''pending''\<rparr>"

definition example_crypto_insert :: withdrawal_account_insert where
  "example_crypto_insert =
     \<lparr>ai_id = 7, ai_user_id = Given (Some 2), ai_account_type = Given (Some ''crypto''),
      ai_account_holder_name = Omitted, ai_account_number = Omitted,
      ai_crypto_type = Given (Some ''bitcoin''), ai_crypto_address = Given None,
      ai_paypal_email = Omitted\<rparr>"

definition example_crypto_account :: withdrawal_account where
  "example_crypto_account =
     \<lparr>a_id = 7, a_user_id = Some 2, a_account_type = Some ''crypto'',
      a_account_holder_name = None, a_account_number = None,
      a_crypto_type = Some ''bitcoin'', a_crypto_address = None, a_paypal_email = None\<rparr>"

definition example_deposits :: "deposit list" where
  "example_deposits =
     [\<lparr>d_id = 30, d_user_id = Some 2, d_amount = Some 25000, d_currency = Some ''USD'',
       d_payment_method = Some ''wire'', d_status = Some ''pending''\<rparr>,
      \<lparr>d_id = 31, d_user_id = Some 2, d_amount = Some 4000, d_currency = Some ''EUR'',
       d_payment_method = Some ''crypto'', d_status = Some ''completed''\<rparr>,
      \<lparr>d_id = 32, d_user_id = Some 1, d_amount = Some 990, d_currency = Some ''USD'',
       d_payment_method = Some ''credit_card'', d_status = Some ''pending''\<rparr>]"

definition example_db :: database where
  "example_db =
     \<lparr>db_users = example_users, db_kyc_verifications = [], db_deposits = example_deposits,
      db_withdrawals = [example_withdrawal]\<rparr>"

definition example_approved_deposit_insert :: deposit_insert where
  "example_approved_deposit_insert =
     \<lparr>di_id = 33, di_user_id = Given (Some 2), di_amount = Given (Some 100000),
      di_currency = Omitted, di_payment_method = Given (Some ''wire''),
      di_status = Given (Some ''approved'')\<rparr>"

definition example_approved_deposit :: deposit where
  "example_approved_deposit =
     \<lparr>d_id = 33, d_user_id = Some 2, d_amount = Some 100000, d_currency = Some ''USD'',
      d_payment_method = Some ''wire'', d_status = Some ''approved''\<rparr>"

definition example_approved_withdrawal_insert :: withdrawal_insert where
  "example_approved_withdrawal_insert =
     \<lparr>wi_id = 22, wi_user_id = Given (Some 2), wi_withdrawal_account_id = Given (Some 7),
      wi_amount = Given (Some 10000), wi_currency = Omitted, wi_fee = Omitted,
      wi_net_amount = Omitted, wi_status = Given (Some ''approved'')\<rparr>"

definition example_approved_withdrawal :: withdrawal where
  "example_approved_withdrawal =
     \<lparr>w_id = 22, w_user_id = Some 2, w_withdrawal_account_id = Some 7,
      w_amount = Some 10000, w_currency = Some ''USD'', w_fee = Some 0,
      w_net_amount = Some 10000, w_status = Some ''approved''\<rparr>"

definition example_kyc :: "kyc list" where
  "example_kyc =
     [\<lparr>k_id = 10, k_user_id = Some 2, k_id_type = Some ''passport'',
       k_id_number = Some ''X1234567'', k_full_name = Some ''Uma User'',
       k_date_of_birth = Some 7300, k_country = Some ''Kenya'', k_status = Some ''pending''\<rparr>]"

definition example_kyc_approve :: kyc_update where
  "example_kyc_approve =
     \<lparr>ku_id_type = Keep, ku_id_number = Keep, ku_full_name = Keep, ku_date_of_birth = Keep,
      ku_country = Keep, ku_status = SetTo (Some ''approved'')\<rparr>"

definition example_deposit_approve :: deposit_update where
  "example_deposit_approve =
     \<lparr>du_user_id = Keep, du_amount = Keep, du_currency = Keep, du_payment_method = Keep,
      du_status = SetTo (Some ''approved'')\<rparr>"

definition example_withdrawal_approve :: withdrawal_update where
  "example_withdrawal_approve =
     \<lparr>wu_user_id = Keep, wu_withdrawal_account_id = Keep, wu_amount = Keep,
      wu_currency = Keep, wu_fee = Keep, wu_net_amount = Keep,
      wu_status = SetTo (Some ''approved'')\<rparr>"

definition example_self_approve :: user_update where
  "example_self_approve =
     \<lparr>uu_full_name = Keep, uu_phone = Keep, uu_role = Keep,
      uu_kyc_status = SetTo (Some ''approved''), uu_account_status = SetTo (Some ''closed'')\<rparr>"

section \<open>Example page loads and submissions\<close>

definition example_admin_env :: admin_env where
  "example_admin_env =
     \<lparr>getUser_result = Returns (Some 2), has_role_result = Returns (Some False),
      signOut_result = Returns ()\<rparr>"

definition example_form :: signup_form where
  "example_form =
     \<lparr>fullName = ''Uma User'', email = ''uma@example.com'', password = ''s3cret!'',
      phone = ''+254700000000'', dob = ''1990-01-01'', country = ''Kenya'',
      referralCode = [0x61, 0x62, 0x31, 0x32, 0x63, 0x64], agreedToTerms = True\<rparr>"

text \<open>An upper-casing of the letters a to z, as the runtime's is on them.\<close>

definition example_toUpperCase :: "js_string \<Rightarrow> js_string" where
  "example_toUpperCase s = map (\<lambda>u. if 0x61 \<le> u \<and> u \<le> 0x7A then u - 0x20 else u) s"

definition example_signup_env :: signup_env where
  "example_signup_env =
     \<lparr>signUp_result = Returns (Some 2, None), profile_update_result = Returns None,
      referrer_result = Returns (Some 1, None), referral_insert_result = Returns None,
      toUpperCase = example_toUpperCase\<rparr>"

section \<open>Tables the constraints admit\<close>

lemma update_rows_all:
  assumes "\<And>r r'. f r = Inr r' \<Longrightarrow> Q r'"
    and "\<forall>r\<in>set t. Q r"
    and "update_rows f P t = Inr t'"
  shows "\<forall>r\<in>set t'. Q r"
  using assms(2,3)
proof (induction t arbitrary: t')
  case Nil
  then show ?case by simp
next
  case (Cons r rs)
  then show ?case
    using assms(1) by (auto split: if_splits sum.splits)
qed

lemma reachable_all:
  assumes "reachable ins upd t"
    and "\<And>q t r. ins q t = Inr (t @ [r]) \<Longrightarrow> Q r"
    and "\<And>q t t'. ins q t = Inr t' \<Longrightarrow> \<exists>r. t' = t @ [r]"
    and "\<And>u r r'. upd u r = Inr r' \<Longrightarrow> Q r'"
  shows "\<forall>r\<in>set t. Q r"
  using assms(1)
proof (induction rule: reachable.induct)
  case created
  then show ?case by simp
next
  case (inserted t q t')
  from assms(3) [OF inserted.hyps(2)] obtain r where t': "t' = t @ [r]" by blast
  with inserted.hyps(2) assms(2) have "Q r" by blast
  with inserted.IH t' show ?case by simp
next
  case (updated t u P t')
  then show ?case using update_rows_all [of "upd u" Q t P t'] assms(4) by blast
next
  case (deleted t P)
  then show ?case by (simp add: delete_rows_def)
qed

lemma insert_row_appends:
  "insert_row ah ps tbl c cons keys new t = Inr t' \<Longrightarrow>
   \<exists>r. t' = t @ [r] \<and> new = Inr r \<and> insertable ps c (ah_rows ah) r \<and>
       first_error (cons r @ keys t r) = None"
  by (auto simp: insert_row_def split: sum.splits if_splits option.splits)

lemma update_row_stores:
  "update_row ps tbl c us cons assign r = Inr r' \<Longrightarrow>
   assign r = Inr r' \<and> storable ps c us r' \<and> first_error (cons r') = None"
  by (auto simp: update_row_def split: sum.splits if_splits option.splits)

lemma first_error_append:
  "first_error (cs @ ds) = None \<longleftrightarrow> first_error cs = None \<and> first_error ds = None"
  by (induction cs rule: first_error.induct) auto

lemma withdrawals_generate_net:
  "withdrawals_generate r = Inr r' \<Longrightarrow>
   w_net_amount r' = sql_sub (w_amount r') (w_fee r')"
  by (auto simp: withdrawals_generate_def split: if_splits)

lemma withdrawals_new_row_net:
  "withdrawals_new_row q = Inr r \<Longrightarrow> w_net_amount r = sql_sub (w_amount r) (w_fee r)"
  by (auto simp: withdrawals_new_row_def split: if_splits dest: withdrawals_generate_net)

lemma withdrawals_assign_net:
  "withdrawals_assign u r = Inr r' \<Longrightarrow> w_net_amount r' = sql_sub (w_amount r') (w_fee r')"
  by (auto simp: withdrawals_assign_def split: if_splits dest: withdrawals_generate_net)

lemma withdrawals_reachable_net:
  assumes "withdrawals_reachable g t"
  shows "\<forall>r\<in>set t. w_net_amount r = sql_sub (w_amount r) (w_fee r)"
proof (rule reachable_all [OF assms [unfolded withdrawals_reachable_def]])
  fix q :: "caller \<times> ctx \<times> withdrawal_insert" and t r
  assume "(case q of (c, ctx, q) \<Rightarrow> withdrawals_insert g c ctx q) t = Inr (t @ [r])"
  then show "w_net_amount r = sql_sub (w_amount r) (w_fee r)"
    by (cases q) (auto simp: withdrawals_insert_def split: if_splits dest!: insert_row_appends
        dest: withdrawals_new_row_net)
next
  fix q :: "caller \<times> ctx \<times> withdrawal_insert" and t t'
  assume "(case q of (c, ctx, q) \<Rightarrow> withdrawals_insert g c ctx q) t = Inr t'"
  then show "\<exists>r. t' = t @ [r]"
    by (cases q) (auto simp: withdrawals_insert_def split: if_splits dest!: insert_row_appends)
next
  fix u :: "caller \<times> ctx \<times> withdrawal_update" and r r'
  assume "(case u of (c, ctx, u) \<Rightarrow> withdrawals_update_row g c ctx u) r = Inr r'"
  then show "w_net_amount r' = sql_sub (w_amount r') (w_fee r')"
    by (cases u) (auto simp: withdrawals_update_row_def dest!: update_row_stores
        dest: withdrawals_assign_net)
qed


text \<open>The statements of the table lead from an admitted table to an admitted table.\<close>

lemma withdrawals_reachable_insert:
  assumes "withdrawals_reachable g t" and "withdrawals_insert g c ctx q t = Inr t'"
  shows "withdrawals_reachable g t'"
proof -
  from assms(2) have "(\<lambda>(c, ctx, q). withdrawals_insert g c ctx q) (c, ctx, q) t = Inr t'"
    by simp
  with assms(1) show ?thesis
    unfolding withdrawals_reachable_def by (rule reachable.inserted)
qed

lemma withdrawals_reachable_update:
  assumes "withdrawals_reachable g t" and "withdrawals_update g c ctx u P t = Inr t'"
  shows "withdrawals_reachable g t'"
proof -
  from assms(2) have "update_rows ((\<lambda>(c, ctx, u). withdrawals_update_row g c ctx u) (c, ctx, u))
      (\<lambda>r. P r \<and> updatable (withdrawals_policies g) c (ctx_users ctx) r) t = Inr t'"
    by (simp add: withdrawals_update_def withdrawals_update_row_def update_table_def
        account_table_def split: if_splits option.splits)
  with assms(1) show ?thesis
    unfolding withdrawals_reachable_def by (rule reachable.updated)
qed

lemma example_withdrawal_inserted:
  "withdrawals_insert UsersBased (Authenticated 2) example_ctx example_withdrawal_insert [] =
   Inr [example_withdrawal]"
  by code_simp

lemma example_withdrawal_reachable: "withdrawals_reachable UsersBased [example_withdrawal]"
proof -
  have "(\<lambda>(c, ctx, q). withdrawals_insert UsersBased c ctx q)
          (Authenticated 2, example_ctx, example_withdrawal_insert) [] = Inr [example_withdrawal]"
    by (simp add: example_withdrawal_inserted)
  then show ?thesis
    unfolding withdrawals_reachable_def by (rule reachable.inserted [OF reachable.created])
qed

lemma update_table_all:
  assumes "\<forall>r\<in>set t. Q r"
    and "\<And>r r'. assign r = Inr r' \<Longrightarrow> Q r'"
    and "update_table ah ps tbl c cons assign P t = Inr t'"
  shows "\<forall>r\<in>set t'. Q r"
proof -
  from assms(3) have "update_rows (update_row ps tbl c (ah_rows ah) cons assign)
      (\<lambda>r. P r \<and> updatable ps c (ah_rows ah) r) t = Inr t'"
    by (simp add: update_table_def split: option.splits)
  then show ?thesis
    by (rule update_rows_all [rotated 2]) (use assms(1,2) in \<open>auto dest: update_row_stores\<close>)
qed

text \<open>
  Claim C1. In both scripts every row of \<open>withdrawals\<close> has \<open>net_amount = amount - fee\<close>:
  in every table reached by inserts, updates and deletes, in the row an insert has just
  added, and in every row after an update; and a statement that gives \<open>net_amount\<close> a
  value of its own, in an insert or in an update, is refused.
\<close>

theorem withdrawals_net_amount_generated:
  "(withdrawals_reachable g t \<longrightarrow>
      (\<forall>r\<in>set t. w_net_amount r = sql_sub (w_amount r) (w_fee r))) \<and>
   (withdrawals_insert g c ctx q t = Inr t' \<longrightarrow>
      (\<exists>r. t' = t @ [r] \<and> w_net_amount r = sql_sub (w_amount r) (w_fee r))) \<and>
   ((\<forall>r\<in>set t. w_net_amount r = sql_sub (w_amount r) (w_fee r)) \<and>
    withdrawals_update g c ctx u P t = Inr t' \<longrightarrow>
      (\<forall>r\<in>set t'. w_net_amount r = sql_sub (w_amount r) (w_fee r))) \<and>
   (wi_net_amount q \<noteq> Omitted \<longrightarrow>
      withdrawals_insert g c ctx q t = Inl (GeneratedAlways ''net_amount'')) \<and>
   (wu_net_amount u \<noteq> Keep \<longrightarrow>
      withdrawals_update g c ctx u P t = Inl (GeneratedAlways ''net_amount''))"
proof (intro conjI impI)
  assume "withdrawals_reachable g t"
  then show "\<forall>r\<in>set t. w_net_amount r = sql_sub (w_amount r) (w_fee r)"
    by (rule withdrawals_reachable_net)
next
  assume "withdrawals_insert g c ctx q t = Inr t'"
  then show "\<exists>r. t' = t @ [r] \<and> w_net_amount r = sql_sub (w_amount r) (w_fee r)"
    by (auto simp: withdrawals_insert_def split: if_splits dest!: insert_row_appends
        dest: withdrawals_new_row_net)
next
  assume a: "(\<forall>r\<in>set t. w_net_amount r = sql_sub (w_amount r) (w_fee r)) \<and>
    withdrawals_update g c ctx u P t = Inr t'"
  then have "update_table (account_table g (ctx_users ctx)) (withdrawals_policies g) ''withdrawals'' c
       (withdrawals_constraints g ctx) (withdrawals_assign u) P t = Inr t'"
    by (simp add: withdrawals_update_def split: if_splits)
  with a show "\<forall>r\<in>set t'. w_net_amount r = sql_sub (w_amount r) (w_fee r)"
    using update_table_all [where Q = "\<lambda>r. w_net_amount r = sql_sub (w_amount r) (w_fee r)"]
      withdrawals_assign_net by blast
next
  assume "wi_net_amount q \<noteq> Omitted"
  then show "withdrawals_insert g c ctx q t = Inl (GeneratedAlways ''net_amount'')"
    by (simp add: withdrawals_insert_def)
next
  assume "wu_net_amount u \<noteq> Keep"
  then show "withdrawals_update g c ctx u P t = Inl (GeneratedAlways ''net_amount'')"
    by (simp add: withdrawals_update_def)
qed

lemma example_fee_updated:
  "withdrawals_update UsersBased ServiceRole example_ctx example_fee_update
     (\<lambda>r. w_id r = 20) [example_withdrawal] =
   Inr [example_withdrawal\<lparr>w_fee := Some 700, w_net_amount := Some 9300\<rparr>]"
  by code_simp

theorem withdrawals_net_amount_generated_witness:
  "withdrawals_reachable UsersBased [example_withdrawal] \<and>
   w_net_amount example_withdrawal = Some 9500 \<and>
   withdrawals_insert UsersBased (Authenticated 2) example_ctx example_withdrawal_insert [] =
     Inr [example_withdrawal] \<and>
   withdrawals_update UsersBased ServiceRole example_ctx example_fee_update
     (\<lambda>r. w_id r = 20) [example_withdrawal] =
     Inr [example_withdrawal\<lparr>w_fee := Some 700, w_net_amount := Some 9300\<rparr>] \<and>
   withdrawals_insert UsersBased (Authenticated 2) example_ctx
     (example_withdrawal_insert\<lparr>wi_net_amount := Given (Some 9500)\<rparr>) [] =
     Inl (GeneratedAlways ''net_amount'') \<and>
   withdrawals_update UsersBased ServiceRole example_ctx
     (example_fee_update\<lparr>wu_net_amount := SetTo (Some 9300)\<rparr>) (\<lambda>r. w_id r = 20)
     [example_withdrawal] = Inl (GeneratedAlways ''net_amount'')"
proof -
  let ?q = "example_withdrawal_insert\<lparr>wi_net_amount := Given (Some 9500)\<rparr>"
  let ?u = "example_fee_update\<lparr>wu_net_amount := SetTo (Some 9300)\<rparr>"
  have "\<forall>r\<in>set [example_withdrawal]. w_net_amount r = sql_sub (w_amount r) (w_fee r)"
    using withdrawals_net_amount_generated [of UsersBased "[example_withdrawal]"]
      example_withdrawal_reachable by blast
  then have net: "w_net_amount example_withdrawal = Some 9500"
    by (simp add: example_withdrawal_def)
  have "wi_net_amount ?q \<noteq> Omitted" by simp
  then have ins: "withdrawals_insert UsersBased (Authenticated 2) example_ctx ?q [] =
      Inl (GeneratedAlways ''net_amount'')"
    using withdrawals_net_amount_generated [where q = ?q] by blast
  have "wu_net_amount ?u \<noteq> Keep" by simp
  then have upd: "withdrawals_update UsersBased ServiceRole example_ctx ?u
      (\<lambda>r. w_id r = 20) [example_withdrawal] = Inl (GeneratedAlways ''net_amount'')"
    using withdrawals_net_amount_generated [where u = ?u] by blast
  have "\<exists>r. [example_withdrawal] = [] @ [r] \<and>
      w_net_amount r = sql_sub (w_amount r) (w_fee r)"
    using withdrawals_net_amount_generated [of UsersBased "[]" "Authenticated 2" example_ctx
        example_withdrawal_insert "[example_withdrawal]"] example_withdrawal_inserted
    by blast
  moreover have "\<forall>r\<in>set [example_withdrawal\<lparr>w_fee := Some 700, w_net_amount := Some 9300\<rparr>].
      w_net_amount r = sql_sub (w_amount r) (w_fee r)"
    using withdrawals_net_amount_generated [of UsersBased "[example_withdrawal]"
        ServiceRole example_ctx example_withdrawal_insert
        "[example_withdrawal\<lparr>w_fee := Some 700, w_net_amount := Some 9300\<rparr>]"
        example_fee_update "\<lambda>r. w_id r = 20"]
      example_withdrawal_reachable example_fee_updated
    by blast
  ultimately show ?thesis
    using net ins upd example_withdrawal_reachable example_withdrawal_inserted
      example_fee_updated
    by blast
qed

subsection \<open>Monetary columns\<close>

lemma deposits_constraints_amount:
  "first_error (deposits_constraints g ctx r) = None \<Longrightarrow> \<exists>v. d_amount r = Some v \<and> 0 < v"
  by (cases g) (auto simp: check_passes_def sql_gt_def split: if_splits)

lemma withdrawals_constraints_amount:
  "first_error (withdrawals_constraints g ctx r) = None \<Longrightarrow> \<exists>v. w_amount r = Some v \<and> 0 < v"
  by (cases g) (auto simp: check_passes_def sql_gt_def split: if_splits)

lemma withdrawals_constraints_fee:
  "first_error (withdrawals_constraints UsersBased ctx r) = None \<Longrightarrow> w_fee r = Some v \<Longrightarrow> 0 \<le> v"
  by (auto simp: check_passes_def sql_ge_def split: if_splits)

lemma account_balances_constraints_nonnegative:
  assumes "first_error (account_balances_constraints ctx r) = None"
  shows "(\<forall>v. b_main_balance r = Some v \<longrightarrow> 0 \<le> v) \<and>
         (\<forall>v. b_profit_balance r = Some v \<longrightarrow> 0 \<le> v) \<and>
         (\<forall>v. b_total_deposited r = Some v \<longrightarrow> 0 \<le> v) \<and>
         (\<forall>v. b_total_withdrawn r = Some v \<longrightarrow> 0 \<le> v)"
  using assms
  by (auto simp: account_balances_constraints_def check_passes_def sql_ge_def split: if_splits)

lemma deposits_reachable_constraints:
  assumes "deposits_reachable g t"
  shows "\<forall>r\<in>set t. \<exists>ctx. first_error (deposits_constraints g ctx r) = None"
proof (rule reachable_all [OF assms [unfolded deposits_reachable_def]])
  fix q :: "caller \<times> ctx \<times> deposit_insert" and t and r :: deposit
  assume "(case q of (c, ctx, q) \<Rightarrow> deposits_insert g c ctx q) t = Inr (t @ [r])"
  then show "\<exists>ctx. first_error (deposits_constraints g ctx r) = None"
    by (cases q) (auto simp: deposits_insert_def first_error_append dest!: insert_row_appends)
next
  fix q :: "caller \<times> ctx \<times> deposit_insert" and t t'
  assume "(case q of (c, ctx, q) \<Rightarrow> deposits_insert g c ctx q) t = Inr t'"
  then show "\<exists>r. t' = t @ [r]"
    by (cases q) (auto simp: deposits_insert_def dest!: insert_row_appends)
next
  fix u :: "caller \<times> ctx \<times> deposit_update" and r r'
  assume "(case u of (c, ctx, u) \<Rightarrow> deposits_update_row g c ctx u) r = Inr r'"
  then show "\<exists>ctx. first_error (deposits_constraints g ctx r') = None"
    by (cases u) (auto simp: deposits_update_row_def dest!: update_row_stores)
qed

lemma deposits_reachable_amount:
  "deposits_reachable g t \<Longrightarrow> \<forall>r\<in>set t. \<exists>v. d_amount r = Some v \<and> 0 < v"
  using deposits_reachable_constraints deposits_constraints_amount by blast

lemma withdrawals_reachable_constraints:
  assumes "withdrawals_reachable g t"
  shows "\<forall>r\<in>set t. \<exists>ctx. first_error (withdrawals_constraints g ctx r) = None"
proof (rule reachable_all [OF assms [unfolded withdrawals_reachable_def]])
  fix q :: "caller \<times> ctx \<times> withdrawal_insert" and t and r :: withdrawal
  assume "(case q of (c, ctx, q) \<Rightarrow> withdrawals_insert g c ctx q) t = Inr (t @ [r])"
  then show "\<exists>ctx. first_error (withdrawals_constraints g ctx r) = None"
    by (cases q) (auto simp: withdrawals_insert_def first_error_append split: if_splits
        dest!: insert_row_appends)
next
  fix q :: "caller \<times> ctx \<times> withdrawal_insert" and t t'
  assume "(case q of (c, ctx, q) \<Rightarrow> withdrawals_insert g c ctx q) t = Inr t'"
  then show "\<exists>r. t' = t @ [r]"
    by (cases q) (auto simp: withdrawals_insert_def split: if_splits dest!: insert_row_appends)
next
  fix u :: "caller \<times> ctx \<times> withdrawal_update" and r r'
  assume "(case u of (c, ctx, u) \<Rightarrow> withdrawals_update_row g c ctx u) r = Inr r'"
  then show "\<exists>ctx. first_error (withdrawals_constraints g ctx r') = None"
    by (cases u) (auto simp: withdrawals_update_row_def dest!: update_row_stores)
qed

lemma withdrawals_reachable_amount:
  "withdrawals_reachable g t \<Longrightarrow> \<forall>r\<in>set t. \<exists>v. w_amount r = Some v \<and> 0 < v"
  using withdrawals_reachable_constraints withdrawals_constraints_amount by blast

lemma withdrawals_reachable_fee_users_schema:
  "withdrawals_reachable UsersBased t \<Longrightarrow> \<forall>r\<in>set t. \<forall>v. w_fee r = Some v \<longrightarrow> 0 \<le> v"
  using withdrawals_reachable_constraints withdrawals_constraints_fee by blast

lemma account_balances_reachable_constraints:
  assumes "account_balances_reachable t"
  shows "\<forall>r\<in>set t. \<exists>ctx. first_error (account_balances_constraints ctx r) = None"
proof (rule reachable_all [OF assms [unfolded account_balances_reachable_def]])
  fix q :: "caller \<times> ctx \<times> account_balance_insert" and t and r :: account_balance
  assume "(case q of (c, ctx, q) \<Rightarrow> account_balances_insert c ctx q) t = Inr (t @ [r])"
  then show "\<exists>ctx. first_error (account_balances_constraints ctx r) = None"
    by (cases q) (auto simp: account_balances_insert_def first_error_append dest!: insert_row_appends)
next
  fix q :: "caller \<times> ctx \<times> account_balance_insert" and t t'
  assume "(case q of (c, ctx, q) \<Rightarrow> account_balances_insert c ctx q) t = Inr t'"
  then show "\<exists>r. t' = t @ [r]"
    by (cases q) (auto simp: account_balances_insert_def dest!: insert_row_appends)
next
  fix u :: "caller \<times> ctx \<times> account_balance_update" and r r'
  assume "(case u of (c, ctx, u) \<Rightarrow> account_balances_update_row c ctx u) r = Inr r'"
  then show "\<exists>ctx. first_error (account_balances_constraints ctx r') = None"
    by (cases u) (auto simp: account_balances_update_row_def dest!: update_row_stores)
qed

lemma account_balances_reachable_nonnegative:
  "account_balances_reachable t \<Longrightarrow>
   \<forall>r\<in>set t.
     (\<forall>v. b_main_balance r = Some v \<longrightarrow> 0 \<le> v) \<and>
     (\<forall>v. b_profit_balance r = Some v \<longrightarrow> 0 \<le> v) \<and>
     (\<forall>v. b_total_deposited r = Some v \<longrightarrow> 0 \<le> v) \<and>
     (\<forall>v. b_total_withdrawn r = Some v \<longrightarrow> 0 \<le> v)"
  using account_balances_reachable_constraints account_balances_constraints_nonnegative
  by blast

lemma example_negative_fee_inserted:
  "withdrawals_insert ProfilesBased ServiceRole example_ctx example_negative_fee_insert [] =
   Inr [example_negative_fee_withdrawal]"
  by code_simp

lemma example_negative_fee_reachable:
  "withdrawals_reachable ProfilesBased [example_negative_fee_withdrawal]"
proof -
  have "(\<lambda>(c, ctx, q). withdrawals_insert ProfilesBased c ctx q)
          (ServiceRole, example_ctx, example_negative_fee_insert) [] =
        Inr [example_negative_fee_withdrawal]"
    by (simp add: example_negative_fee_inserted)
  then show ?thesis
    unfolding withdrawals_reachable_def by (rule reachable.inserted [OF reachable.created])
qed

text \<open>
  Claim C5. Deposit and withdrawal amounts are positive and the balances never negative
  in every table the constraints admit, and so is the fee under the first script (the
  lemmas above). Under the second script the claim fails: \<open>fee\<close> is declared without the
  \<^verbatim>\<open>CHECK (fee >= 0)\<close> of the first, and a withdrawal of 1.00 with a fee of -5.00 is
  stored, which the first script refuses.
\<close>

theorem profiles_withdrawals_fee_unchecked:
  "withdrawals_insert ProfilesBased ServiceRole example_ctx example_negative_fee_insert [] =
     Inr [example_negative_fee_withdrawal] \<and>
   withdrawals_reachable ProfilesBased [example_negative_fee_withdrawal] \<and>
   w_fee example_negative_fee_withdrawal = Some (- 500) \<and>
   withdrawals_insert UsersBased ServiceRole example_ctx example_negative_fee_insert [] =
     Inl (CheckViolation ''fee'')"
proof -
  have "withdrawals_insert UsersBased ServiceRole example_ctx example_negative_fee_insert [] =
     Inl (CheckViolation ''fee'')"
    by code_simp
  then show ?thesis
    using example_negative_fee_inserted example_negative_fee_reachable
    by (simp add: example_negative_fee_withdrawal_def)
qed

subsection \<open>Withdrawal accounts\<close>

lemma sql_and_Some: "sql_and (Some a) (Some b) = Some (a \<and> b)"
  by (cases a; cases b) simp_all

lemma qual_passes_eq_literal: "qual_passes (sql_eq x (Some v)) \<longleftrightarrow> x = Some v"
  by (cases x) (simp_all add: qual_passes_def sql_eq_def)

lemma withdrawal_accounts_check_cases:
  "withdrawal_accounts_check r = Some True \<or> withdrawal_accounts_check r = Some False"
  by (auto simp: withdrawal_accounts_check_def is_not_null_def sql_and_Some)

lemma withdrawal_accounts_check_true:
  "withdrawal_accounts_check r = Some True \<longleftrightarrow>
     (a_account_type r = Some ''bank'' \<and> a_account_number r \<noteq> None \<and>
        a_account_holder_name r \<noteq> None) \<or>
     (a_account_type r = Some ''crypto'' \<and> a_crypto_address r \<noteq> None \<and>
        a_crypto_type r \<noteq> None) \<or>
     (a_account_type r = Some ''paypal'' \<and> a_paypal_email r \<noteq> None)"
  by (simp add: withdrawal_accounts_check_def is_not_null_def sql_and_Some
      qual_passes_eq_literal)

text \<open>
  Claim C6. A row of \<open>withdrawal_accounts\<close> whose fields do not match its
  \<open>account_type\<close> makes the table's \<^verbatim>\<open>CHECK\<close> false, in both scripts: a crypto account
  without \<open>crypto_address\<close> (or without \<open>crypto_type\<close>), a bank account without
  \<open>account_number\<close> or \<open>account_holder_name\<close>, a paypal account without \<open>paypal_email\<close>,
  and any other \<open>account_type\<close>. An insert of such a row fails, and the row an insert
  adds has the fields of its type.
\<close>

theorem withdrawal_accounts_fields_match_type:
  "(a_account_type r = Some ''crypto'' \<and> (a_crypto_address r = None \<or> a_crypto_type r = None)
      \<longrightarrow> withdrawal_accounts_check r = Some False) \<and>
   (a_account_type r = Some ''bank'' \<and>
      (a_account_number r = None \<or> a_account_holder_name r = None)
      \<longrightarrow> withdrawal_accounts_check r = Some False) \<and>
   (a_account_type r = Some ''paypal'' \<and> a_paypal_email r = None
      \<longrightarrow> withdrawal_accounts_check r = Some False) \<and>
   (a_account_type r \<notin> {Some ''bank'', Some ''crypto'', Some ''paypal''}
      \<longrightarrow> withdrawal_accounts_check r = Some False) \<and>
   (withdrawal_accounts_new_row q = Inr r \<and> withdrawal_accounts_check r = Some False
      \<longrightarrow> (\<exists>e. withdrawal_accounts_insert g c ctx q t = Inl e)) \<and>
   (withdrawal_accounts_insert g c ctx q t = Inr t'
      \<longrightarrow> (\<exists>r'. t' = t @ [r'] \<and>
            ((a_account_type r' = Some ''bank'' \<and> a_account_number r' \<noteq> None \<and>
                a_account_holder_name r' \<noteq> None) \<or>
             (a_account_type r' = Some ''crypto'' \<and> a_crypto_address r' \<noteq> None \<and>
                a_crypto_type r' \<noteq> None) \<or>
             (a_account_type r' = Some ''paypal'' \<and> a_paypal_email r' \<noteq> None))))"
proof -
  have false: "withdrawal_accounts_check r = Some False"
    if "\<not> ((a_account_type r = Some ''bank'' \<and> a_account_number r \<noteq> None \<and>
        a_account_holder_name r \<noteq> None) \<or>
     (a_account_type r = Some ''crypto'' \<and> a_crypto_address r \<noteq> None \<and>
        a_crypto_type r \<noteq> None) \<or>
     (a_account_type r = Some ''paypal'' \<and> a_paypal_email r \<noteq> None))"
    using that withdrawal_accounts_check_true [of r] withdrawal_accounts_check_cases [of r]
    by blast
  have rejected: "\<exists>e. withdrawal_accounts_insert g c ctx q t = Inl e"
    if "withdrawal_accounts_new_row q = Inr r" "withdrawal_accounts_check r = Some False"
  proof (cases "withdrawal_accounts_insert g c ctx q t")
    case (Inl e)
    then show ?thesis by blast
  next
    case (Inr t')
    then have "first_error (withdrawal_accounts_constraints ctx r) = None"
      using that(1)
      by (auto simp: withdrawal_accounts_insert_def first_error_append
          dest!: insert_row_appends)
    with that(2) show ?thesis
      by (auto simp: withdrawal_accounts_constraints_def check_passes_def split: if_splits)
  qed
  have accepted: "\<exists>r'. t' = t @ [r'] \<and> withdrawal_accounts_check r' = Some True"
    if "withdrawal_accounts_insert g c ctx q t = Inr t'"
  proof -
    from that obtain r' where r': "t' = t @ [r']"
      "first_error (withdrawal_accounts_constraints ctx r') = None"
      by (auto simp: withdrawal_accounts_insert_def first_error_append
          dest!: insert_row_appends)
    from r'(2) have "withdrawal_accounts_check r' \<noteq> Some False"
      by (auto simp: withdrawal_accounts_constraints_def check_passes_def split: if_splits)
    with withdrawal_accounts_check_cases [of r'] r'(1) show ?thesis by auto
  qed
  show ?thesis
  proof (intro conjI impI)
    assume "a_account_type r = Some ''crypto'' \<and>
      (a_crypto_address r = None \<or> a_crypto_type r = None)"
    then show "withdrawal_accounts_check r = Some False"
      by (intro false) auto
  next
    assume "a_account_type r = Some ''bank'' \<and>
      (a_account_number r = None \<or> a_account_holder_name r = None)"
    then show "withdrawal_accounts_check r = Some False"
      by (intro false) auto
  next
    assume "a_account_type r = Some ''paypal'' \<and> a_paypal_email r = None"
    then show "withdrawal_accounts_check r = Some False"
      by (intro false) auto
  next
    assume "a_account_type r \<notin> {Some ''bank'', Some ''crypto'', Some ''paypal''}"
    then show "withdrawal_accounts_check r = Some False"
      by (intro false) auto
  next
    assume "withdrawal_accounts_new_row q = Inr r \<and> withdrawal_accounts_check r = Some False"
    then show "\<exists>e. withdrawal_accounts_insert g c ctx q t = Inl e"
      using rejected by blast
  next
    assume "withdrawal_accounts_insert g c ctx q t = Inr t'"
    from accepted [OF this] obtain r' where "t' = t @ [r']"
      "withdrawal_accounts_check r' = Some True" by blast
    then show "\<exists>r'. t' = t @ [r'] \<and>
            ((a_account_type r' = Some ''bank'' \<and> a_account_number r' \<noteq> None \<and>
                a_account_holder_name r' \<noteq> None) \<or>
             (a_account_type r' = Some ''crypto'' \<and> a_crypto_address r' \<noteq> None \<and>
                a_crypto_type r' \<noteq> None) \<or>
             (a_account_type r' = Some ''paypal'' \<and> a_paypal_email r' \<noteq> None))"
      using withdrawal_accounts_check_true [of r'] by blast
  qed
qed

lemma example_crypto_rejected:
  "withdrawal_accounts_insert UsersBased (Authenticated 2) example_ctx example_crypto_insert [] =
   Inl (CheckViolation ''withdrawal_accounts'')"
  by code_simp

lemma example_crypto_accepted:
  "withdrawal_accounts_insert UsersBased (Authenticated 2) example_ctx
     (example_crypto_insert\<lparr>ai_crypto_address := Given (Some ''bc1qexample'')\<rparr>) [] =
   Inr [example_crypto_account\<lparr>a_crypto_address := Some ''bc1qexample''\<rparr>]"
  by code_simp

theorem withdrawal_accounts_fields_match_type_witness:
  "withdrawal_accounts_new_row example_crypto_insert = Inr example_crypto_account \<and>
   a_account_type example_crypto_account = Some ''crypto'' \<and>
   a_crypto_address example_crypto_account = None \<and>
   withdrawal_accounts_check example_crypto_account = Some False \<and>
   withdrawal_accounts_insert UsersBased (Authenticated 2) example_ctx example_crypto_insert [] =
     Inl (CheckViolation ''withdrawal_accounts'') \<and>
   withdrawal_accounts_insert ProfilesBased ServiceRole example_ctx example_crypto_insert [] =
     Inl (CheckViolation ''withdrawal_accounts'') \<and>
   withdrawal_accounts_check (example_crypto_account\<lparr>a_account_type := Some ''bank''\<rparr>) =
     Some False \<and>
   withdrawal_accounts_check (example_crypto_account\<lparr>a_account_type := Some ''paypal''\<rparr>) =
     Some False \<and>
   withdrawal_accounts_check (example_crypto_account\<lparr>a_account_type := Some ''cash''\<rparr>) =
     Some False \<and>
   withdrawal_accounts_insert UsersBased (Authenticated 2) example_ctx
     (example_crypto_insert\<lparr>ai_crypto_address := Given (Some ''bc1qexample'')\<rparr>) [] =
     Inr [example_crypto_account\<lparr>a_crypto_address := Some ''bc1qexample''\<rparr>]"
proof -
  let ?r = example_crypto_account
  have new: "withdrawal_accounts_new_row example_crypto_insert = Inr ?r"
    by (simp add: withdrawal_accounts_new_row_def example_crypto_insert_def
        example_crypto_account_def)
  have ty: "a_account_type ?r = Some ''crypto''" and addr: "a_crypto_address ?r = None"
    by (simp_all add: example_crypto_account_def)
  have chk: "withdrawal_accounts_check ?r = Some False"
    using withdrawal_accounts_fields_match_type [of ?r] ty addr by blast
  have rej: "\<exists>e. withdrawal_accounts_insert ProfilesBased ServiceRole example_ctx
      example_crypto_insert [] = Inl e"
    using withdrawal_accounts_fields_match_type [of ?r example_crypto_insert] new chk by blast
  have prof: "withdrawal_accounts_insert ProfilesBased ServiceRole example_ctx
      example_crypto_insert [] = Inl (CheckViolation ''withdrawal_accounts'')"
    by code_simp
  have bank: "withdrawal_accounts_check (?r\<lparr>a_account_type := Some ''bank''\<rparr>) = Some False"
    using withdrawal_accounts_fields_match_type [of "?r\<lparr>a_account_type := Some ''bank''\<rparr>"]
    by (simp add: example_crypto_account_def)
  have paypal: "withdrawal_accounts_check (?r\<lparr>a_account_type := Some ''paypal''\<rparr>) = Some False"
    using withdrawal_accounts_fields_match_type [of "?r\<lparr>a_account_type := Some ''paypal''\<rparr>"]
    by (simp add: example_crypto_account_def)
  have cash: "withdrawal_accounts_check (?r\<lparr>a_account_type := Some ''cash''\<rparr>) = Some False"
    using withdrawal_accounts_fields_match_type [of "?r\<lparr>a_account_type := Some ''cash''\<rparr>"]
    by (simp add: example_crypto_account_def)
  have "\<exists>r'. [?r\<lparr>a_crypto_address := Some ''bc1qexample''\<rparr>] = [] @ [r'] \<and>
      ((a_account_type r' = Some ''bank'' \<and> a_account_number r' \<noteq> None \<and>
          a_account_holder_name r' \<noteq> None) \<or>
       (a_account_type r' = Some ''crypto'' \<and> a_crypto_address r' \<noteq> None \<and>
          a_crypto_type r' \<noteq> None) \<or>
       (a_account_type r' = Some ''paypal'' \<and> a_paypal_email r' \<noteq> None))"
    using withdrawal_accounts_fields_match_type [of ?r
        "example_crypto_insert\<lparr>ai_crypto_address := Given (Some ''bc1qexample'')\<rparr>"
        UsersBased "Authenticated 2" example_ctx "[]"
        "[?r\<lparr>a_crypto_address := Some ''bc1qexample''\<rparr>]"]
      example_crypto_accepted by blast
  with new ty addr chk prof bank paypal cash example_crypto_rejected example_crypto_accepted
  show ?thesis by blast
qed

subsection \<open>The dashboard summary\<close>

lemma count_where_filter:
  "count_where col lit t = length (filter (\<lambda>r. col r = Some lit) t)"
  by (induction t) (auto simp: qual_passes_def sql_eq_def split: option.splits)

text \<open>
  Claim C7. In every state of the database, the \<open>pending_deposits\<close> field of the view
  \<open>admin_dashboard_summary\<close> is the number of rows of \<open>deposits\<close> whose status is
  \<open>pending\<close>.
\<close>

theorem pending_deposits_counts_pending_rows:
  "pending_deposits (admin_dashboard_summary db) =
   card {i. i < length (db_deposits db) \<and> d_status (db_deposits db ! i) = Some ''pending''}"
  by (simp add: admin_dashboard_summary_def count_where_filter length_filter_conv_card)

theorem pending_deposits_counts_pending_rows_witness:
  "pending_deposits (admin_dashboard_summary example_db) = 2 \<and>
   card {i. i < length (db_deposits example_db) \<and>
            d_status (db_deposits example_db ! i) = Some ''pending''} = 2"
proof -
  have "pending_deposits (admin_dashboard_summary example_db) = 2"
    by code_simp
  then show ?thesis
    using pending_deposits_counts_pending_rows [of example_db] by simp
qed

subsection \<open>Insert policies\<close>

lemma qual_passes_literal_eq: "qual_passes (sql_eq (Some v) x) \<longleftrightarrow> x = Some v"
  by (cases x) (auto simp: qual_passes_def sql_eq_def)

lemma qual_passes_and: "qual_passes (sql_and a b) \<longleftrightarrow> qual_passes a \<and> qual_passes b"
  by (induction a b rule: sql_and.induct) (simp_all add: qual_passes_def)

lemma qual_passes_own_pending_row:
  "qual_passes (expr_value (own_pending_row owner status) uid us r) \<longleftrightarrow>
   owner r = Some uid \<and> status r = Some ''pending''"
  by (simp add: own_pending_row_def qual_passes_and qual_passes_literal_eq
      qual_passes_eq_literal)

lemma qual_passes_own_row:
  "qual_passes (expr_value (own_row owner) uid us r) \<longleftrightarrow> owner r = Some uid"
  by (simp add: own_row_def qual_passes_literal_eq)

lemma admin_caller_passes:
  "qual_passes (expr_value admin_caller uid us r) \<longleftrightarrow> caller_is_admin uid us = Some True"
  by (simp add: admin_caller_def qual_passes_def)

lemmas deposits_policy_defs =
  users_read_own_deposits_def admins_read_all_deposits_def users_insert_own_deposits_def
  admins_update_deposits_def

lemmas withdrawals_policy_defs =
  users_read_own_withdrawals_def admins_read_all_withdrawals_def
  users_insert_own_withdrawals_def admins_update_withdrawals_def

lemmas kyc_policy_defs =
  users_read_own_kyc_def admins_read_all_kyc_def users_insert_own_kyc_def
  users_update_own_kyc_def admins_update_kyc_def users_insert_kyc_def users_update_kyc_def

lemmas users_policy_defs =
  users_read_own_def admins_read_all_users_def users_update_own_def
  users_read_own_profile_def admins_read_all_profiles_def

lemmas policy_passes =
  using_holds_def check_holds_def allowed_using_def allowed_check_def
  qual_passes_own_row qual_passes_own_pending_row admin_caller_passes

lemmas policy_unfolds =
  policy_recursion_def pol_subquery_def account_table_def own_row_def own_pending_row_def
  admin_caller_def

lemma deposits_insert_policy:
  "p \<in> set (deposits_policies g) \<Longrightarrow> pol_cmd p = Insert \<Longrightarrow> check_holds p uid us d \<Longrightarrow>
   d_user_id d = Some uid \<and> d_status d = Some ''pending''"
  by (cases g) (auto simp: deposits_policy_defs policy_passes)

lemma withdrawals_insert_policy:
  "p \<in> set (withdrawals_policies g) \<Longrightarrow> pol_cmd p = Insert \<Longrightarrow> check_holds p uid us w \<Longrightarrow>
   w_user_id w = Some uid \<and> w_status w = Some ''pending''"
  by (cases g) (auto simp: withdrawals_policy_defs policy_passes)

text \<open>No insert policy of the two tables has a subquery, so an insert is not refused for one.\<close>

lemma deposits_insert_unfolds: "\<not> policy_recursion ups (deposits_policies g) [Insert]"
  by (cases g) (simp_all add: deposits_policy_defs policy_unfolds)

lemma withdrawals_insert_unfolds: "\<not> policy_recursion ups (withdrawals_policies g) [Insert]"
  by (cases g) (simp_all add: withdrawals_policy_defs policy_unfolds)

lemma account_table_rows: "ah_rows (account_table g us) = us"
  by (simp add: account_table_def)

lemma allowed_check_iff:
  "allowed_check ps c uid us r \<longleftrightarrow> (\<exists>p\<in>set ps. pol_cmd p = c \<and> check_holds p uid us r)"
  by (simp add: allowed_check_def list_ex_iff)

text \<open>
  Claim C3. In both scripts every insert policy on \<open>deposits\<close> and on \<open>withdrawals\<close>
  admits a row only if it belongs to the caller and its status is \<open>pending\<close>; so an
  insert by an authenticated caller, admin or not, of a row whose status is not
  \<open>pending\<close> is refused by row-level security.
\<close>

theorem insert_policies_require_pending:
  "(\<forall>p\<in>set (deposits_policies g). pol_cmd p = Insert \<longrightarrow> check_holds p uid us d \<longrightarrow>
      d_status d = Some ''pending'') \<and>
   (\<forall>p\<in>set (withdrawals_policies g). pol_cmd p = Insert \<longrightarrow> check_holds p uid us w \<longrightarrow>
      w_status w = Some ''pending'') \<and>
   (deposits_new_row dq = Inr d \<and> d_status d \<noteq> Some ''pending'' \<longrightarrow>
      deposits_insert g (Authenticated uid) ctx dq dt = Inl (RowSecurity ''deposits'')) \<and>
   (withdrawals_new_row wq = Inr w \<and> w_status w \<noteq> Some ''pending'' \<longrightarrow>
      withdrawals_insert g (Authenticated uid) ctx wq wt = Inl (RowSecurity ''withdrawals''))"
proof (intro conjI ballI impI)
  fix p assume "p \<in> set (deposits_policies g)" "pol_cmd p = Insert" "check_holds p uid us d"
  then show "d_status d = Some ''pending''"
    using deposits_insert_policy by blast
next
  fix p assume "p \<in> set (withdrawals_policies g)" "pol_cmd p = Insert" "check_holds p uid us w"
  then show "w_status w = Some ''pending''"
    using withdrawals_insert_policy by blast
next
  assume a: "deposits_new_row dq = Inr d \<and> d_status d \<noteq> Some ''pending''"
  then have "\<not> allowed_check (deposits_policies g) Insert uid (ctx_users ctx) d"
    using deposits_insert_policy unfolding allowed_check_iff by blast
  with a show "deposits_insert g (Authenticated uid) ctx dq dt = Inl (RowSecurity ''deposits'')"
    by (simp add: deposits_insert_def insert_row_def deposits_insert_unfolds
        account_table_rows)
next
  assume a: "withdrawals_new_row wq = Inr w \<and> w_status w \<noteq> Some ''pending''"
  then have "\<not> allowed_check (withdrawals_policies g) Insert uid (ctx_users ctx) w"
    using withdrawals_insert_policy unfolding allowed_check_iff by blast
  moreover from a have "wi_net_amount wq = Omitted"
    by (auto simp: withdrawals_new_row_def split: if_splits)
  ultimately show "withdrawals_insert g (Authenticated uid) ctx wq wt =
      Inl (RowSecurity ''withdrawals'')"
    using a
    by (simp add: withdrawals_insert_def insert_row_def withdrawals_insert_unfolds
        account_table_rows)
qed

lemma example_approved_deposit_row:
  "deposits_new_row example_approved_deposit_insert = Inr example_approved_deposit"
  by code_simp

lemma example_approved_withdrawal_row:
  "withdrawals_new_row example_approved_withdrawal_insert = Inr example_approved_withdrawal"
  by code_simp

lemma example_pending_deposit_inserted:
  "deposits_insert UsersBased (Authenticated 2) example_ctx
     (example_approved_deposit_insert\<lparr>di_status := Omitted\<rparr>) [] =
   Inr [example_approved_deposit\<lparr>d_status := Some ''pending''\<rparr>]"
  by code_simp

theorem insert_policies_require_pending_witness:
  "users_insert_own_deposits \<in> set (deposits_policies UsersBased) \<and>
   pol_cmd users_insert_own_deposits = Insert \<and>
   check_holds users_insert_own_deposits 2 example_users
     (example_approved_deposit\<lparr>d_status := Some ''pending''\<rparr>) \<and>
   \<not> check_holds users_insert_own_deposits 2 example_users example_approved_deposit \<and>
   users_insert_own_withdrawals \<in> set (withdrawals_policies UsersBased) \<and>
   pol_cmd users_insert_own_withdrawals = Insert \<and>
   check_holds users_insert_own_withdrawals 2 example_users example_withdrawal \<and>
   \<not> check_holds users_insert_own_withdrawals 2 example_users example_approved_withdrawal \<and>
   deposits_insert UsersBased (Authenticated 2) example_ctx example_approved_deposit_insert [] =
     Inl (RowSecurity ''deposits'') \<and>
   deposits_insert ProfilesBased (Authenticated 2) example_ctx example_approved_deposit_insert [] =
     Inl (RowSecurity ''deposits'') \<and>
   withdrawals_insert UsersBased (Authenticated 2) example_ctx
     example_approved_withdrawal_insert [] = Inl (RowSecurity ''withdrawals'') \<and>
   deposits_insert UsersBased (Authenticated 2) example_ctx
     (example_approved_deposit_insert\<lparr>di_status := Omitted\<rparr>) [] =
     Inr [example_approved_deposit\<lparr>d_status := Some ''pending''\<rparr>]"
proof -
  note C = insert_policies_require_pending
  have d_in: "users_insert_own_deposits \<in> set (deposits_policies UsersBased)"
    and w_in: "users_insert_own_withdrawals \<in> set (withdrawals_policies UsersBased)"
    by simp_all
  have d_cmd: "pol_cmd users_insert_own_deposits = Insert"
    and w_cmd: "pol_cmd users_insert_own_withdrawals = Insert"
    by (simp_all add: users_insert_own_deposits_def users_insert_own_withdrawals_def)
  have d_ok: "check_holds users_insert_own_deposits 2 example_users
      (example_approved_deposit\<lparr>d_status := Some ''pending''\<rparr>)"
    by (simp add: check_holds_def users_insert_own_deposits_def qual_passes_own_pending_row
        example_approved_deposit_def)
  have w_ok: "check_holds users_insert_own_withdrawals 2 example_users example_withdrawal"
    by (simp add: check_holds_def users_insert_own_withdrawals_def qual_passes_own_pending_row
        example_withdrawal_def)
  have d_st: "d_status example_approved_deposit \<noteq> Some ''pending''"
    and w_st: "w_status example_approved_withdrawal \<noteq> Some ''pending''"
    by (simp_all add: example_approved_deposit_def example_approved_withdrawal_def)
  have d_no: "\<not> check_holds users_insert_own_deposits 2 example_users example_approved_deposit"
    using C [of UsersBased 2 example_users example_approved_deposit] d_in d_cmd d_st
    by blast
  have w_no: "\<not> check_holds users_insert_own_withdrawals 2 example_users
      example_approved_withdrawal"
    using C [of UsersBased 2 example_users _ example_approved_withdrawal] w_in w_cmd w_st
    by blast
  have d_rej: "deposits_insert g (Authenticated 2) example_ctx example_approved_deposit_insert []
      = Inl (RowSecurity ''deposits'')" for g
    using C [of g 2 _ example_approved_deposit _ example_approved_deposit_insert example_ctx "[]"]
      example_approved_deposit_row d_st by blast
  have w_rej: "withdrawals_insert UsersBased (Authenticated 2) example_ctx
      example_approved_withdrawal_insert [] = Inl (RowSecurity ''withdrawals'')"
    using C [where w = example_approved_withdrawal
        and wq = example_approved_withdrawal_insert]
      example_approved_withdrawal_row w_st by blast
  show ?thesis
    using d_in w_in d_cmd w_cmd d_ok w_ok d_no w_no d_rej w_rej example_pending_deposit_inserted
    by blast
qed

subsection \<open>Who reads and who updates\<close>

text \<open>
  What the select policies say of a row, taken as predicates: the row is the caller's
  own, or the caller is an admin.
\<close>

lemma deposits_policies_visible:
  "visible (deposits_policies g) (Authenticated uid) us r \<longleftrightarrow>
   d_user_id r = Some uid \<or> caller_is_admin uid us = Some True"
  by (cases g) (auto simp: deposits_policy_defs policy_passes)

lemma kyc_policies_visible:
  "visible (kyc_policies g) (Authenticated uid) us r \<longleftrightarrow>
   k_user_id r = Some uid \<or> caller_is_admin uid us = Some True"
  by (cases g) (auto simp: kyc_policy_defs policy_passes)

lemma withdrawals_policies_visible:
  "visible (withdrawals_policies UsersBased) (Authenticated uid) us r \<longleftrightarrow>
   w_user_id r = Some uid \<or> caller_is_admin uid us = Some True"
  by (auto simp: withdrawals_policy_defs policy_passes)

text \<open>
  What the engine does with them: every \<open>admins_...\<close> policy has the subquery on the
  account-holder table, and that table's own \<open>admins_read_all_...\<close> policy has it too.
  So in both scripts every select and every update of an authenticated caller on
  \<open>deposits\<close> and on the KYC table is refused, whoever the caller is, and so it is on
  \<open>withdrawals\<close> under the first script. Under the second script \<open>withdrawals\<close> has no
  policy: a select returns no row and an update changes none.
\<close>

lemma deposits_select_refused:
  "deposits_select g (Authenticated uid) ctx P t = Inl (InfiniteRecursion (users_table g))"
  by (cases g)
    (simp_all add: deposits_select_def select_rows_def deposits_policy_defs users_policy_defs
      policy_unfolds)

lemma deposits_update_refused:
  "deposits_update g (Authenticated uid) ctx u P t = Inl (InfiniteRecursion (users_table g))"
  by (cases g)
    (simp_all add: deposits_update_def update_table_def deposits_policy_defs users_policy_defs
      policy_unfolds)

lemma kyc_select_refused:
  "kyc_select g (Authenticated uid) ctx P t = Inl (InfiniteRecursion (users_table g))"
  by (cases g)
    (simp_all add: kyc_select_def select_rows_def kyc_policy_defs users_policy_defs
      policy_unfolds)

lemma kyc_update_refused:
  "kyc_update g (Authenticated uid) ctx u P t = Inl (InfiniteRecursion (users_table g))"
  by (cases g)
    (simp_all add: kyc_update_def update_table_def kyc_policy_defs users_policy_defs
      policy_unfolds)

lemma withdrawals_select_refused:
  "withdrawals_select UsersBased (Authenticated uid) ctx P t = Inl (InfiniteRecursion ''users'')"
  by (simp add: withdrawals_select_def select_rows_def withdrawals_policy_defs
      users_policy_defs policy_unfolds)

lemma withdrawals_update_refused:
  "wu_net_amount u = Keep \<Longrightarrow>
   withdrawals_update UsersBased (Authenticated uid) ctx u P t =
   Inl (InfiniteRecursion ''users'')"
  by (simp add: withdrawals_update_def update_table_def withdrawals_policy_defs
      users_policy_defs policy_unfolds)

lemma update_rows_none: "update_rows f (\<lambda>r. False) t = Inr t"
  by (induction t) simp_all

lemma withdrawals_select_empty:
  "withdrawals_select ProfilesBased (Authenticated uid) ctx P t = Inr []"
  by (simp add: withdrawals_select_def select_rows_def policy_recursion_def allowed_using_def)

lemma withdrawals_update_nothing:
  "wu_net_amount u = Keep \<Longrightarrow>
   withdrawals_update ProfilesBased (Authenticated uid) ctx u P t = Inr t"
  by (simp add: withdrawals_update_def update_table_def policy_recursion_def
      allowed_using_def update_rows_none)

text \<open>So no select of an authenticated caller returns a row of another user.\<close>

lemma deposits_select_own:
  "deposits_select g (Authenticated uid) ctx P t = Inr rows \<Longrightarrow> rows = []"
  by (simp add: deposits_select_refused)

lemma kyc_select_own:
  "kyc_select g (Authenticated uid) ctx P t = Inr rows \<Longrightarrow> rows = []"
  by (simp add: kyc_select_refused)

lemma withdrawals_select_own:
  "withdrawals_select g (Authenticated uid) ctx P t = Inr rows \<Longrightarrow> rows = []"
  by (cases g) (simp_all add: withdrawals_select_refused withdrawals_select_empty)

text \<open>
  Claim C2. The half of the claim about a caller who is not an admin holds: no select
  returns a row of another user (the lemmas above). The admin's half fails, in both
  scripts. With user 1 the admin and user 2 the owner of the rows: under the first
  script the admin's select and update on \<open>deposits\<close>, on \<open>withdrawals\<close> and on the KYC
  table are refused with the recursion error; under the second script the same holds
  on \<open>deposits\<close> and the KYC table, and on \<open>withdrawals\<close> the select returns no row and
  the update changes none. The service role carries the same update out.
\<close>

theorem admin_statements_refused:
  "caller_is_admin 1 example_users = Some True \<and>
   deposits_select UsersBased (Authenticated 1) example_ctx (\<lambda>r. True) example_deposits =
     Inl (InfiniteRecursion ''users'') \<and>
   deposits_update UsersBased (Authenticated 1) example_ctx example_deposit_approve
     (\<lambda>r. d_id r = 30) example_deposits = Inl (InfiniteRecursion ''users'') \<and>
   withdrawals_select UsersBased (Authenticated 1) example_ctx (\<lambda>r. True)
     [example_withdrawal] = Inl (InfiniteRecursion ''users'') \<and>
   withdrawals_update UsersBased (Authenticated 1) example_ctx example_withdrawal_approve
     (\<lambda>r. w_id r = 20) [example_withdrawal] = Inl (InfiniteRecursion ''users'') \<and>
   kyc_select UsersBased (Authenticated 1) example_ctx (\<lambda>r. True) example_kyc =
     Inl (InfiniteRecursion ''users'') \<and>
   kyc_update UsersBased (Authenticated 1) example_ctx example_kyc_approve
     (\<lambda>r. k_id r = 10) example_kyc = Inl (InfiniteRecursion ''users'') \<and>
   deposits_select ProfilesBased (Authenticated 1) example_ctx (\<lambda>r. True) example_deposits =
     Inl (InfiniteRecursion ''profiles'') \<and>
   deposits_update ProfilesBased (Authenticated 1) example_ctx example_deposit_approve
     (\<lambda>r. d_id r = 30) example_deposits = Inl (InfiniteRecursion ''profiles'') \<and>
   kyc_select ProfilesBased (Authenticated 1) example_ctx (\<lambda>r. True) example_kyc =
     Inl (InfiniteRecursion ''profiles'') \<and>
   kyc_update ProfilesBased (Authenticated 1) example_ctx example_kyc_approve
     (\<lambda>r. k_id r = 10) example_kyc = Inl (InfiniteRecursion ''profiles'') \<and>
   withdrawals_select ProfilesBased (Authenticated 1) example_ctx (\<lambda>r. True)
     [example_withdrawal] = Inr [] \<and>
   withdrawals_update ProfilesBased (Authenticated 1) example_ctx example_withdrawal_approve
     (\<lambda>r. w_id r = 20) [example_withdrawal] = Inr [example_withdrawal] \<and>
   withdrawals_update UsersBased ServiceRole example_ctx example_withdrawal_approve
     (\<lambda>r. w_id r = 20) [example_withdrawal] =
     Inr [example_withdrawal\<lparr>w_status := Some ''approved''\<rparr>]"
proof (intro conjI)
  show "caller_is_admin 1 example_users = Some True"
    by code_simp
  show "deposits_select UsersBased (Authenticated 1) example_ctx (\<lambda>r. True) example_deposits =
     Inl (InfiniteRecursion ''users'')"
    by code_simp
  show "deposits_update UsersBased (Authenticated 1) example_ctx example_deposit_approve
     (\<lambda>r. d_id r = 30) example_deposits = Inl (InfiniteRecursion ''users'')"
    by code_simp
  show "withdrawals_select UsersBased (Authenticated 1) example_ctx (\<lambda>r. True)
     [example_withdrawal] = Inl (InfiniteRecursion ''users'')"
    by code_simp
  show "withdrawals_update UsersBased (Authenticated 1) example_ctx example_withdrawal_approve
     (\<lambda>r. w_id r = 20) [example_withdrawal] = Inl (InfiniteRecursion ''users'')"
    by code_simp
  show "kyc_select UsersBased (Authenticated 1) example_ctx (\<lambda>r. True) example_kyc =
     Inl (InfiniteRecursion ''users'')"
    by code_simp
  show "kyc_update UsersBased (Authenticated 1) example_ctx example_kyc_approve
     (\<lambda>r. k_id r = 10) example_kyc = Inl (InfiniteRecursion ''users'')"
    by code_simp
  show "deposits_select ProfilesBased (Authenticated 1) example_ctx (\<lambda>r. True)
     example_deposits = Inl (InfiniteRecursion ''profiles'')"
    by code_simp
  show "deposits_update ProfilesBased (Authenticated 1) example_ctx example_deposit_approve
     (\<lambda>r. d_id r = 30) example_deposits = Inl (InfiniteRecursion ''profiles'')"
    by code_simp
  show "kyc_select ProfilesBased (Authenticated 1) example_ctx (\<lambda>r. True) example_kyc =
     Inl (InfiniteRecursion ''profiles'')"
    by code_simp
  show "kyc_update ProfilesBased (Authenticated 1) example_ctx example_kyc_approve
     (\<lambda>r. k_id r = 10) example_kyc = Inl (InfiniteRecursion ''profiles'')"
    by code_simp
  show "withdrawals_select ProfilesBased (Authenticated 1) example_ctx (\<lambda>r. True)
     [example_withdrawal] = Inr []"
    by code_simp
  show "withdrawals_update ProfilesBased (Authenticated 1) example_ctx
     example_withdrawal_approve (\<lambda>r. w_id r = 20) [example_withdrawal] =
     Inr [example_withdrawal]"
    by code_simp
  show "withdrawals_update UsersBased ServiceRole example_ctx example_withdrawal_approve
     (\<lambda>r. w_id r = 20) [example_withdrawal] =
     Inr [example_withdrawal\<lparr>w_status := Some ''approved''\<rparr>]"
    by code_simp
qed

subsection \<open>Updates of the account-holder table\<close>

text \<open>
  The update policy \<open>users_update_own\<close> looks up the caller's role in \<^verbatim>\<open>public.users\<close>, in
  a policy on \<^verbatim>\<open>public.users\<close>, and the select policies of both account-holder tables
  look the admin up in their own table: every update of an authenticated caller on the
  account-holder table is refused.
\<close>

lemma users_update_refused:
  "users_update g (Authenticated uid) u P t = Inl (InfiniteRecursion (users_table g))"
  by (cases g)
    (simp_all add: users_update_def update_table_def users_policy_defs policy_unfolds)

text \<open>
  The check of \<open>users_update_own\<close> reads the new row's \<open>id\<close> and \<open>role\<close> and no other
  column: it does not tell two rows apart that differ in their status columns only.
\<close>

lemma users_update_own_reads_id_and_role:
  "u_id r' = u_id r \<Longrightarrow> u_role r' = u_role r \<Longrightarrow>
   check_holds users_update_own uid us r' = check_holds users_update_own uid us r"
  by (simp add: check_holds_def users_update_own_def)

text \<open>
  Claim C4. In both scripts an update by an authenticated caller, and so by any caller
  who is not an admin, leaves the account-holder table as it was: the role, the
  \<open>kyc_status\<close> and the \<open>account_status\<close> of every row are unchanged after the step.
\<close>

theorem users_update_changes_no_status:
  "table_after t (users_update g (Authenticated uid) u P t) = t \<and>
   map u_role (table_after t (users_update g (Authenticated uid) u P t)) = map u_role t \<and>
   map u_kyc_status (table_after t (users_update g (Authenticated uid) u P t)) =
     map u_kyc_status t \<and>
   map u_account_status (table_after t (users_update g (Authenticated uid) u P t)) =
     map u_account_status t"
  by (simp add: users_update_refused table_after_def)

theorem users_update_changes_no_status_witness:
  "caller_is_admin 2 example_users = Some False \<and>
   users_update UsersBased (Authenticated 2) example_self_approve (\<lambda>r. u_id r = 2)
     example_users = Inl (InfiniteRecursion ''users'') \<and>
   users_update ProfilesBased (Authenticated 2) example_self_approve (\<lambda>r. u_id r = 2)
     example_users = Inl (InfiniteRecursion ''profiles'') \<and>
   map u_kyc_status
     (table_after example_users
        (users_update UsersBased (Authenticated 2) example_self_approve (\<lambda>r. u_id r = 2)
           example_users)) = [Some ''approved'', Some ''pending''] \<and>
   map u_account_status
     (table_after example_users
        (users_update UsersBased (Authenticated 2) example_self_approve (\<lambda>r. u_id r = 2)
           example_users)) = [Some ''active'', Some ''active'']"
proof -
  have "caller_is_admin 2 example_users = Some False"
    by code_simp
  moreover have "users_update UsersBased (Authenticated 2) example_self_approve
      (\<lambda>r. u_id r = 2) example_users = Inl (InfiniteRecursion ''users'')"
    by code_simp
  moreover have "users_update ProfilesBased (Authenticated 2) example_self_approve
      (\<lambda>r. u_id r = 2) example_users = Inl (InfiniteRecursion ''profiles'')"
    by code_simp
  moreover have "map u_kyc_status example_users = [Some ''approved'', Some ''pending'']"
    and "map u_account_status example_users = [Some ''active'', Some ''active'']"
    by (simp_all add: example_users_def)
  ultimately show ?thesis
    using users_update_changes_no_status [of example_users UsersBased 2 example_self_approve
        "\<lambda>r. u_id r = 2"]
    by simp
qed

section \<open>What the pages do\<close>

subsection \<open>The admin dashboard\<close>

lemma checkAdminAccess_no_session:
  "getUser_result env = Returns None \<Longrightarrow>
   checkAdminAccess env = [AuthGetUser, Navigate ''/admin/login'', SetLoading False]"
  by (simp add: checkAdminAccess_def)

lemma checkAdminAccess_getUser_thrown:
  "getUser_result env = Throws m \<Longrightarrow>
   checkAdminAccess env =
     [AuthGetUser, ConsoleError ''Auth error:'', Navigate ''/admin/login'', SetLoading False]"
  by (simp add: checkAdminAccess_def auth_error_def)

lemma checkAdminAccess_refused:
  assumes "getUser_result env = Returns (Some uid)"
    and "has_role_result env = Returns roleData" and "roleData \<noteq> Some True"
  shows "checkAdminAccess env =
           [AuthGetUser, SetUser uid, Rpc ''has_role'' uid ''admin'',
            ToastError ''Unauthorized: Admin access required''] @
           AuthSignOut #
           (case signOut_result env of Throws m \<Rightarrow> auth_error
            | Returns _ \<Rightarrow> [Navigate ''/admin/login'']) @ [SetLoading False]"
  using assms by (simp add: checkAdminAccess_def)

lemma checkAdminAccess_thrown:
  assumes "getUser_result env = Returns (Some uid)" and "has_role_result env = Throws m"
  shows "checkAdminAccess env =
           [AuthGetUser, SetUser uid, Rpc ''has_role'' uid ''admin'',
            ConsoleError ''Auth error:'', Navigate ''/admin/login'', SetLoading False]"
  using assms by (simp add: checkAdminAccess_def auth_error_def)

lemma checkAdminAccess_admin:
  assumes "getUser_result env = Returns (Some uid)"
    and "has_role_result env = Returns (Some True)"
  shows "checkAdminAccess env =
           [AuthGetUser, SetUser uid, Rpc ''has_role'' uid ''admin'',
            SetIsAdmin True, FetchStats, SetLoading False]"
  using assms by (simp add: checkAdminAccess_def)

text \<open>The five ways a load can go.\<close>

lemma admin_env_cases:
  obtains (no_session) "getUser_result env = Returns None"
  | (getUser_thrown) m where "getUser_result env = Throws m"
  | (thrown) uid m where "getUser_result env = Returns (Some uid)"
      and "has_role_result env = Throws m"
  | (refused) uid roleData where "getUser_result env = Returns (Some uid)"
      and "has_role_result env = Returns roleData" and "roleData \<noteq> Some True"
  | (admin) uid where "getUser_result env = Returns (Some uid)"
      and "has_role_result env = Returns (Some True)"
proof (cases "getUser_result env")
  case (Throws m)
  then show ?thesis by (rule getUser_thrown)
next
  case (Returns user)
  show ?thesis
  proof (cases user)
    case None
    with Returns show ?thesis by (simp add: no_session)
  next
    case (Some uid)
    with Returns have u: "getUser_result env = Returns (Some uid)" by simp
    show ?thesis
    proof (cases "has_role_result env")
      case (Throws m)
      with u show ?thesis by (rule thrown)
    next
      case r: (Returns roleData)
      show ?thesis
      proof (cases "roleData = Some True")
        case True
        with u r show ?thesis by (simp add: admin)
      next
        case False
        with u r show ?thesis by (rule refused)
      qed
    qed
  qed
qed

lemma load_not_confirmed:
  assumes "\<not> role_confirmed env"
  shows "Navigate ''/admin/login'' \<in> set (checkAdminAccess env) \<and>
         FetchStats \<notin> set (checkAdminAccess env) \<and>
         SetIsAdmin True \<notin> set (checkAdminAccess env) \<and>
         admin_render (admin_loaded env) = AccessDenied"
proof (cases env rule: admin_env_cases)
  case no_session
  then show ?thesis
    by (simp add: checkAdminAccess_no_session admin_loaded_def admin_initial_def
        admin_render_def)
next
  case (getUser_thrown m)
  then show ?thesis
    by (simp add: checkAdminAccess_getUser_thrown admin_loaded_def admin_initial_def
        admin_render_def)
next
  case (thrown uid m)
  then show ?thesis
    by (simp add: checkAdminAccess_thrown admin_loaded_def admin_initial_def admin_render_def)
next
  case (refused uid roleData)
  then show ?thesis
    by (cases "signOut_result env")
      (simp_all add: checkAdminAccess_refused auth_error_def admin_loaded_def
        admin_initial_def admin_render_def)
next
  case (admin uid)
  with assms show ?thesis by (simp add: role_confirmed_def)
qed

lemma load_refused:
  assumes "role_check_returned env" and "\<not> role_confirmed env"
  shows "\<exists>pre post. checkAdminAccess env = pre @ AuthSignOut # post \<and>
                    Navigate ''/admin/login'' \<in> set post"
proof (cases env rule: admin_env_cases)
  case (refused uid roleData)
  note tr = checkAdminAccess_refused [OF refused]
  show ?thesis
    unfolding tr
    by (intro exI conjI, rule refl) (cases "signOut_result env"; simp add: auth_error_def)
qed (use assms in \<open>simp_all add: role_check_returned_def role_confirmed_def\<close>)

lemma load_without_role_check:
  assumes "\<not> role_check_returned env"
  shows "AuthSignOut \<notin> set (checkAdminAccess env)"
proof (cases env rule: admin_env_cases)
  case no_session
  then show ?thesis by (simp add: checkAdminAccess_no_session)
next
  case (getUser_thrown m)
  then show ?thesis by (simp add: checkAdminAccess_getUser_thrown)
next
  case (thrown uid m)
  then show ?thesis by (simp add: checkAdminAccess_thrown)
qed (use assms in \<open>simp_all add: role_check_returned_def\<close>)

lemma load_confirmed:
  assumes "role_confirmed env"
  shows "FetchStats \<in> set (checkAdminAccess env) \<and>
         AuthSignOut \<notin> set (checkAdminAccess env) \<and>
         Navigate ''/admin/login'' \<notin> set (checkAdminAccess env) \<and>
         admin_render (admin_loaded env) = AdminContent"
proof (cases env rule: admin_env_cases)
  case (admin uid)
  then show ?thesis
    by (simp add: checkAdminAccess_admin admin_loaded_def admin_initial_def admin_render_def)
qed (use assms in \<open>simp_all add: role_confirmed_def\<close>)

text \<open>
  Claim C8, as the page has it. On every load: when the role check does not confirm the
  admin role, the page navigates to the admin login, the statistics are not fetched,
  \<open>isAdmin\<close> is never set, and the page shows "Access Denied". The page signs out before
  it navigates when the role check returns without confirming the role; it does not
  sign out when the role check throws or, for want of a session, is not made. When the
  role check confirms the role, the page fetches the statistics and shows the admin
  content.
\<close>

theorem checkAdminAccess_gate:
  "(\<not> role_confirmed env \<longrightarrow>
      Navigate ''/admin/login'' \<in> set (checkAdminAccess env) \<and>
      FetchStats \<notin> set (checkAdminAccess env) \<and>
      SetIsAdmin True \<notin> set (checkAdminAccess env) \<and>
      admin_render (admin_loaded env) = AccessDenied) \<and>
   (role_check_returned env \<and> \<not> role_confirmed env \<longrightarrow>
      (\<exists>pre post. checkAdminAccess env = pre @ AuthSignOut # post \<and>
                   Navigate ''/admin/login'' \<in> set post)) \<and>
   (\<not> role_check_returned env \<longrightarrow> AuthSignOut \<notin> set (checkAdminAccess env)) \<and>
   (role_confirmed env \<longrightarrow>
      FetchStats \<in> set (checkAdminAccess env) \<and>
      AuthSignOut \<notin> set (checkAdminAccess env) \<and>
      Navigate ''/admin/login'' \<notin> set (checkAdminAccess env) \<and>
      admin_render (admin_loaded env) = AdminContent)"
proof (intro conjI impI)
  assume "\<not> role_confirmed env"
  note n = load_not_confirmed [OF this]
  from n show "Navigate ''/admin/login'' \<in> set (checkAdminAccess env)" by (rule conjunct1)
  from n show "FetchStats \<notin> set (checkAdminAccess env)" by simp
  from n show "SetIsAdmin True \<notin> set (checkAdminAccess env)" by simp
  from n show "admin_render (admin_loaded env) = AccessDenied" by simp
next
  assume a: "role_check_returned env \<and> \<not> role_confirmed env"
  show "\<exists>pre post. checkAdminAccess env = pre @ AuthSignOut # post \<and>
      Navigate ''/admin/login'' \<in> set post"
    by (rule load_refused) (use a in simp_all)
next
  assume "\<not> role_check_returned env"
  then show "AuthSignOut \<notin> set (checkAdminAccess env)" by (rule load_without_role_check)
next
  assume "role_confirmed env"
  note c = load_confirmed [OF this]
  from c show "FetchStats \<in> set (checkAdminAccess env)" by (rule conjunct1)
  from c show "AuthSignOut \<notin> set (checkAdminAccess env)" by simp
  from c show "Navigate ''/admin/login'' \<notin> set (checkAdminAccess env)" by simp
  from c show "admin_render (admin_loaded env) = AdminContent" by simp
qed

theorem checkAdminAccess_gate_witness:
  "\<not> role_confirmed example_admin_env \<and> role_check_returned example_admin_env \<and>
   (\<exists>pre post. checkAdminAccess example_admin_env = pre @ AuthSignOut # post \<and>
                Navigate ''/admin/login'' \<in> set post) \<and>
   FetchStats \<notin> set (checkAdminAccess example_admin_env) \<and>
   admin_render (admin_loaded example_admin_env) = AccessDenied \<and>
   \<not> role_check_returned (example_admin_env\<lparr>has_role_result := Throws ''Failed to fetch''\<rparr>) \<and>
   AuthSignOut \<notin>
     set (checkAdminAccess (example_admin_env\<lparr>has_role_result := Throws ''Failed to fetch''\<rparr>)) \<and>
   Navigate ''/admin/login'' \<in>
     set (checkAdminAccess (example_admin_env\<lparr>has_role_result := Throws ''Failed to fetch''\<rparr>)) \<and>
   \<not> role_confirmed (example_admin_env\<lparr>getUser_result := Returns None\<rparr>) \<and>
   Navigate ''/admin/login'' \<in>
     set (checkAdminAccess (example_admin_env\<lparr>getUser_result := Returns None\<rparr>)) \<and>
   FetchStats \<notin> set (checkAdminAccess (example_admin_env\<lparr>getUser_result := Returns None\<rparr>)) \<and>
   role_confirmed (example_admin_env\<lparr>has_role_result := Returns (Some True)\<rparr>) \<and>
   FetchStats \<in>
     set (checkAdminAccess (example_admin_env\<lparr>has_role_result := Returns (Some True)\<rparr>)) \<and>
   admin_render (admin_loaded (example_admin_env\<lparr>has_role_result := Returns (Some True)\<rparr>)) =
     AdminContent"
proof -
  let ?down = "example_admin_env\<lparr>has_role_result := Throws ''Failed to fetch''\<rparr>"
  let ?anon = "example_admin_env\<lparr>getUser_result := Returns None\<rparr>"
  let ?admin = "example_admin_env\<lparr>has_role_result := Returns (Some True)\<rparr>"
  have c: "\<not> role_confirmed example_admin_env" "\<not> role_confirmed ?down"
    "\<not> role_confirmed ?anon" "role_confirmed ?admin"
    by (simp_all add: role_confirmed_def example_admin_env_def)
  have r: "role_check_returned example_admin_env" "\<not> role_check_returned ?down"
    by (simp_all add: role_check_returned_def example_admin_env_def)
  note G = checkAdminAccess_gate
  have 1: "(\<exists>pre post. checkAdminAccess example_admin_env = pre @ AuthSignOut # post \<and>
                Navigate ''/admin/login'' \<in> set post) \<and>
      FetchStats \<notin> set (checkAdminAccess example_admin_env) \<and>
      admin_render (admin_loaded example_admin_env) = AccessDenied"
    using G [of example_admin_env] c(1) r(1) by blast
  have 2: "AuthSignOut \<notin> set (checkAdminAccess ?down) \<and>
      Navigate ''/admin/login'' \<in> set (checkAdminAccess ?down)"
    using G [of ?down] c(2) r(2) by blast
  have 3: "Navigate ''/admin/login'' \<in> set (checkAdminAccess ?anon) \<and>
      FetchStats \<notin> set (checkAdminAccess ?anon)"
    using G [of ?anon] c(3) by blast
  have 4: "FetchStats \<in> set (checkAdminAccess ?admin) \<and>
      admin_render (admin_loaded ?admin) = AdminContent"
    using G [of ?admin] c(4) by blast
  from c r 1 2 3 4 show ?thesis by blast
qed

text \<open>
  Claim C8, as stated, fails on a load on which the role check does not return: the page
  navigates to the admin login and does not sign out. The three loads below are a
  signed-in user whose role check throws, a load without a session, on which the role
  check is not made, and a load on which \<open>getUser\<close> throws.
\<close>

theorem checkAdminAccess_thrown_keeps_session:
  "getUser_result (example_admin_env\<lparr>has_role_result := Throws ''Failed to fetch''\<rparr>) =
     Returns (Some 2) \<and>
   has_role_result (example_admin_env\<lparr>has_role_result := Throws ''Failed to fetch''\<rparr>) =
     Throws ''Failed to fetch'' \<and>
   \<not> role_confirmed (example_admin_env\<lparr>has_role_result := Throws ''Failed to fetch''\<rparr>) \<and>
   checkAdminAccess (example_admin_env\<lparr>has_role_result := Throws ''Failed to fetch''\<rparr>) =
     [AuthGetUser, SetUser 2, Rpc ''has_role'' 2 ''admin'', ConsoleError ''Auth error:'',
      Navigate ''/admin/login'', SetLoading False] \<and>
   AuthSignOut \<notin>
     set (checkAdminAccess (example_admin_env\<lparr>has_role_result := Throws ''Failed to fetch''\<rparr>)) \<and>
   \<not> role_confirmed (example_admin_env\<lparr>getUser_result := Returns None\<rparr>) \<and>
   checkAdminAccess (example_admin_env\<lparr>getUser_result := Returns None\<rparr>) =
     [AuthGetUser, Navigate ''/admin/login'', SetLoading False] \<and>
   AuthSignOut \<notin> set (checkAdminAccess (example_admin_env\<lparr>getUser_result := Returns None\<rparr>)) \<and>
   \<not> role_confirmed (example_admin_env\<lparr>getUser_result := Throws ''Failed to fetch''\<rparr>) \<and>
   checkAdminAccess (example_admin_env\<lparr>getUser_result := Throws ''Failed to fetch''\<rparr>) =
     [AuthGetUser, ConsoleError ''Auth error:'', Navigate ''/admin/login'', SetLoading False] \<and>
   AuthSignOut \<notin>
     set (checkAdminAccess (example_admin_env\<lparr>getUser_result := Throws ''Failed to fetch''\<rparr>))"
  by (simp add: checkAdminAccess_def role_confirmed_def example_admin_env_def auth_error_def)

subsection \<open>The signup page\<close>

lemma signup_referral_quiet: "\<not> list_ex is_toast_error (signup_referral f env uid)"
  by (auto simp: signup_referral_def split: outcome.splits option.splits prod.splits)

lemma handleSignup_created:
  assumes "agreedToTerms f" and "signUp_result env = Returns (Some uid, None)"
    and "profile_update_result env = Returns v"
  shows "handleSignup f env =
           [PreventDefault, SetLoading True, AuthSignUp (email f) (password f),
            ProfilesUpdate uid] @ signup_referral f env uid @
           [ToastSuccess account_created, Navigate ''/login'', SetLoading False]"
  using assms by (simp add: handleSignup_def)

text \<open>The lookup is made only after the signup and the profile update have gone through.\<close>

lemma lookup_made:
  assumes "list_ex is_profiles_select (handleSignup f env)"
  obtains uid v where "agreedToTerms f" and "signUp_result env = Returns (Some uid, None)"
    and "profile_update_result env = Returns v"
    and "referralCode f \<noteq> []" and "js_trim (referralCode f) \<noteq> []"
proof -
  from assms have a: "agreedToTerms f"
    by (auto simp: handleSignup_def split: if_splits)
  with assms obtain uid where s: "signUp_result env = Returns (Some uid, None)"
    by (auto simp: handleSignup_def signup_failed_def
        split: outcome.splits prod.splits option.splits if_splits)
  with a assms obtain v where p: "profile_update_result env = Returns v"
    by (auto simp: handleSignup_def signup_failed_def split: outcome.splits if_splits)
  from assms have "list_ex is_profiles_select (signup_referral f env uid)"
    by (simp add: handleSignup_created [OF a s p])
  then have "referralCode f \<noteq> []" "js_trim (referralCode f) \<noteq> []"
    by (auto simp: signup_referral_def split: if_splits)
  with a s p show ?thesis by (rule that)
qed

lemma js_trim_empty: "js_trim [] = []"
  by (simp add: js_trim_def)

lemma lookup_made_iff:
  "list_ex is_profiles_select (handleSignup f env) \<longleftrightarrow>
   agreedToTerms f \<and> (\<exists>uid. signUp_result env = Returns (Some uid, None)) \<and>
   (\<exists>v. profile_update_result env = Returns v) \<and> js_trim (referralCode f) \<noteq> []"
proof
  assume "list_ex is_profiles_select (handleSignup f env)"
  then show "agreedToTerms f \<and> (\<exists>uid. signUp_result env = Returns (Some uid, None)) \<and>
      (\<exists>v. profile_update_result env = Returns v) \<and> js_trim (referralCode f) \<noteq> []"
    by (rule lookup_made) simp
next
  assume r: "agreedToTerms f \<and> (\<exists>uid. signUp_result env = Returns (Some uid, None)) \<and>
      (\<exists>v. profile_update_result env = Returns v) \<and> js_trim (referralCode f) \<noteq> []"
  then obtain uid v where a: "agreedToTerms f"
    and s: "signUp_result env = Returns (Some uid, None)"
    and p: "profile_update_result env = Returns v"
    by blast
  from r have "referralCode f \<noteq> []" "js_trim (referralCode f) \<noteq> []"
    using js_trim_empty by auto
  then show "list_ex is_profiles_select (handleSignup f env)"
    by (simp add: handleSignup_created [OF a s p] signup_referral_def)
qed

lemma signup_referral_trace:
  assumes "referralCode f \<noteq> []" and "js_trim (referralCode f) \<noteq> []"
  shows "signup_referral f env uid =
           ProfilesSelect (toUpperCase env (referralCode f)) #
           (case referrer_result env of
              Throws m \<Rightarrow> [ConsoleError ''Referral error:'']
            | Returns (None, err) \<Rightarrow> []
            | Returns (Some referrer, err) \<Rightarrow>
                ReferralsInsert referrer uid 50 False #
                (case referral_insert_result env of
                   Throws m \<Rightarrow> [ConsoleError ''Referral error:'']
                 | Returns err' \<Rightarrow> []))"
  using assms by (simp add: signup_referral_def)

text \<open>
  Claim C9, as the page has it. In every signup in which the referral lookup is made
  (the terms are agreed to, the auth signup has returned a user and no error, the
  profile update has returned and the referral code is not white space only), whatever
  the lookup and the referral insert do, the handler ends with the success toast and
  the navigation to \<open>/login\<close> and shows no error toast. A failure that is thrown, by the
  lookup or by the insert, is caught and logged to the console. A failure that the call
  resolves to, an \<open>error\<close> in the object it returns, is not read: when the lookup
  returns and no insert throws, nothing is logged.
\<close>

theorem signup_referral_failure_swallowed:
  assumes "list_ex is_profiles_select (handleSignup f env)"
  shows
    "(\<exists>pre. handleSignup f env =
        pre @ [ToastSuccess account_created, Navigate ''/login'', SetLoading False]) \<and>
     \<not> list_ex is_toast_error (handleSignup f env) \<and>
     (referrer_result env = Throws m \<longrightarrow>
        ConsoleError ''Referral error:'' \<in> set (handleSignup f env)) \<and>
     (referrer_result env = Returns (Some rid, err) \<and> referral_insert_result env = Throws m \<longrightarrow>
        ConsoleError ''Referral error:'' \<in> set (handleSignup f env)) \<and>
     (referrer_result env = Returns (None, err) \<longrightarrow>
        ConsoleError ''Referral error:'' \<notin> set (handleSignup f env)) \<and>
     (referrer_result env = Returns (Some rid, err) \<and>
      referral_insert_result env = Returns err' \<longrightarrow>
        ConsoleError ''Referral error:'' \<notin> set (handleSignup f env))"
proof -
  from assms obtain uid v where a: "agreedToTerms f"
    and s: "signUp_result env = Returns (Some uid, None)"
    and p: "profile_update_result env = Returns v"
    and c: "referralCode f \<noteq> []" "js_trim (referralCode f) \<noteq> []"
    by (rule lookup_made)
  note tr = handleSignup_created [OF a s p]
  note rf = signup_referral_trace [OF c]
  show ?thesis
  proof (intro conjI impI)
    show "\<exists>pre. handleSignup f env =
        pre @ [ToastSuccess account_created, Navigate ''/login'', SetLoading False]"
      unfolding tr
      by (rule exI [of _ "[PreventDefault, SetLoading True, AuthSignUp (email f) (password f),
            ProfilesUpdate uid] @ signup_referral f env uid"]) simp
    show "\<not> list_ex is_toast_error (handleSignup f env)"
      unfolding tr using signup_referral_quiet [of f env uid] by simp
  next
    assume "referrer_result env = Throws m"
    then show "ConsoleError ''Referral error:'' \<in> set (handleSignup f env)"
      unfolding tr rf by simp
  next
    assume "referrer_result env = Returns (Some rid, err) \<and>
      referral_insert_result env = Throws m"
    then show "ConsoleError ''Referral error:'' \<in> set (handleSignup f env)"
      unfolding tr rf by simp
  next
    assume "referrer_result env = Returns (None, err)"
    then show "ConsoleError ''Referral error:'' \<notin> set (handleSignup f env)"
      unfolding tr rf by simp
  next
    assume "referrer_result env = Returns (Some rid, err) \<and>
      referral_insert_result env = Returns err'"
    then show "ConsoleError ''Referral error:'' \<notin> set (handleSignup f env)"
      unfolding tr rf by simp
  qed
qed

lemmas example_signup_defs =
  handleSignup_def signup_referral_def js_trim_def js_whitespace_def
  example_form_def example_signup_env_def example_toUpperCase_def

lemma example_lookup_thrown:
  "handleSignup example_form (example_signup_env\<lparr>referrer_result := Throws ''timeout''\<rparr>) =
     [PreventDefault, SetLoading True, AuthSignUp ''uma@example.com'' ''s3cret!'',
      ProfilesUpdate 2, ProfilesSelect [0x41, 0x42, 0x31, 0x32, 0x43, 0x44],
      ConsoleError ''Referral error:'',
      ToastSuccess account_created, Navigate ''/login'', SetLoading False]"
  by (simp add: example_signup_defs)

lemma example_insert_thrown:
  "handleSignup example_form
     (example_signup_env\<lparr>referral_insert_result := Throws ''timeout''\<rparr>) =
     [PreventDefault, SetLoading True, AuthSignUp ''uma@example.com'' ''s3cret!'',
      ProfilesUpdate 2, ProfilesSelect [0x41, 0x42, 0x31, 0x32, 0x43, 0x44],
      ReferralsInsert 1 2 50 False, ConsoleError ''Referral error:'',
      ToastSuccess account_created, Navigate ''/login'', SetLoading False]"
  by (simp add: example_signup_defs)

lemma example_insert_denied:
  "handleSignup example_form
     (example_signup_env\<lparr>referral_insert_result :=
        Returns (Some ''new row violates row-level security policy'')\<rparr>) =
     [PreventDefault, SetLoading True, AuthSignUp ''uma@example.com'' ''s3cret!'',
      ProfilesUpdate 2, ProfilesSelect [0x41, 0x42, 0x31, 0x32, 0x43, 0x44],
      ReferralsInsert 1 2 50 False,
      ToastSuccess account_created, Navigate ''/login'', SetLoading False]"
  by (simp add: example_signup_defs)

theorem signup_referral_failure_swallowed_witness:
  "list_ex is_profiles_select
     (handleSignup example_form (example_signup_env\<lparr>referrer_result := Throws ''timeout''\<rparr>)) \<and>
   \<not> list_ex is_toast_error
       (handleSignup example_form (example_signup_env\<lparr>referrer_result := Throws ''timeout''\<rparr>)) \<and>
   ConsoleError ''Referral error:'' \<in>
     set (handleSignup example_form
            (example_signup_env\<lparr>referrer_result := Throws ''timeout''\<rparr>)) \<and>
   ConsoleError ''Referral error:'' \<in>
     set (handleSignup example_form
            (example_signup_env\<lparr>referral_insert_result := Throws ''timeout''\<rparr>)) \<and>
   ConsoleError ''Referral error:'' \<notin>
     set (handleSignup example_form
            (example_signup_env\<lparr>referral_insert_result :=
               Returns (Some ''new row violates row-level security policy'')\<rparr>)) \<and>
   (\<exists>pre. handleSignup example_form
            (example_signup_env\<lparr>referral_insert_result :=
               Returns (Some ''new row violates row-level security policy'')\<rparr>) =
          pre @ [ToastSuccess account_created, Navigate ''/login'', SetLoading False])"
proof -
  let ?lookup = "example_signup_env\<lparr>referrer_result := Throws ''timeout''\<rparr>"
  let ?insert = "example_signup_env\<lparr>referral_insert_result := Throws ''timeout''\<rparr>"
  let ?denied = "example_signup_env\<lparr>referral_insert_result :=
      Returns (Some ''new row violates row-level security policy'')\<rparr>"
  have made: "list_ex is_profiles_select (handleSignup example_form ?lookup)"
    "list_ex is_profiles_select (handleSignup example_form ?insert)"
    "list_ex is_profiles_select (handleSignup example_form ?denied)"
    by (simp_all add: example_lookup_thrown example_insert_thrown example_insert_denied)
  have l: "referrer_result ?lookup = Throws ''timeout''"
    and i: "referrer_result ?insert = Returns (Some 1, None)"
      "referral_insert_result ?insert = Throws ''timeout''"
    and d: "referrer_result ?denied = Returns (Some 1, None)"
      "referral_insert_result ?denied =
         Returns (Some ''new row violates row-level security policy'')"
    by (simp_all add: example_signup_env_def)
  note L = signup_referral_failure_swallowed [OF made(1), of "''timeout''"]
  note I = signup_referral_failure_swallowed [OF made(2), of "''timeout''" 1 None]
  note D = signup_referral_failure_swallowed [OF made(3), of _ 1 None
      "Some ''new row violates row-level security policy''"]
  have 1: "\<not> list_ex is_toast_error (handleSignup example_form ?lookup)"
    using L by blast
  have 2: "ConsoleError ''Referral error:'' \<in> set (handleSignup example_form ?lookup)"
    using L l by blast
  have 3: "ConsoleError ''Referral error:'' \<in> set (handleSignup example_form ?insert)"
    using I i by blast
  have 4: "ConsoleError ''Referral error:'' \<notin> set (handleSignup example_form ?denied)"
    using D d by blast
  have 5: "\<exists>pre. handleSignup example_form ?denied =
      pre @ [ToastSuccess account_created, Navigate ''/login'', SetLoading False]"
    using D by blast
  from made(1) 1 2 3 4 5 show ?thesis by blast
qed

text \<open>
  Claim C9, as stated, fails when a failure is resolved and not thrown. In the signup
  below the auth signup succeeds and the referral lookup fails with an \<open>error\<close> in the
  object it resolves to: the failure is neither caught nor logged.
\<close>

theorem signup_resolved_failure_not_logged:
  "signUp_result
     (example_signup_env\<lparr>referrer_result :=
        Returns (None, Some ''permission denied for table profiles'')\<rparr>) =
     Returns (Some 2, None) \<and>
   referrer_result
     (example_signup_env\<lparr>referrer_result :=
        Returns (None, Some ''permission denied for table profiles'')\<rparr>) =
     Returns (None, Some ''permission denied for table profiles'') \<and>
   handleSignup example_form
     (example_signup_env\<lparr>referrer_result :=
        Returns (None, Some ''permission denied for table profiles'')\<rparr>) =
     [PreventDefault, SetLoading True, AuthSignUp ''uma@example.com'' ''s3cret!'',
      ProfilesUpdate 2, ProfilesSelect [0x41, 0x42, 0x31, 0x32, 0x43, 0x44],
      ToastSuccess account_created, Navigate ''/login'', SetLoading False] \<and>
   ConsoleError ''Referral error:'' \<notin>
     set (handleSignup example_form
            (example_signup_env\<lparr>referrer_result :=
               Returns (None, Some ''permission denied for table profiles'')\<rparr>))"
proof -
  have "handleSignup example_form
     (example_signup_env\<lparr>referrer_result :=
        Returns (None, Some ''permission denied for table profiles'')\<rparr>) =
     [PreventDefault, SetLoading True, AuthSignUp ''uma@example.com'' ''s3cret!'',
      ProfilesUpdate 2, ProfilesSelect [0x41, 0x42, 0x31, 0x32, 0x43, 0x44],
      ToastSuccess account_created, Navigate ''/login'', SetLoading False]"
    by (simp add: example_signup_defs)
  then show ?thesis
    by (simp add: example_signup_env_def)
qed

text \<open>
  Claim C10. When the terms are not agreed to, the submit handler prevents the form's
  default action, shows the terms error and returns: it makes no call on the backend,
  whatever the backend would have answered.
\<close>

theorem handleSignup_requires_terms:
  assumes "\<not> agreedToTerms f"
  shows "handleSignup f env =
           [PreventDefault, ToastError ''Please agree to the Terms & Conditions''] \<and>
         \<not> list_ex backend_call (handleSignup f env)"
  using assms by (simp add: handleSignup_def)

theorem handleSignup_requires_terms_witness:
  "\<not> agreedToTerms (example_form\<lparr>agreedToTerms := False\<rparr>) \<and>
   handleSignup (example_form\<lparr>agreedToTerms := False\<rparr>) example_signup_env =
     [PreventDefault, ToastError ''Please agree to the Terms & Conditions''] \<and>
   \<not> list_ex backend_call (handleSignup (example_form\<lparr>agreedToTerms := False\<rparr>) example_signup_env) \<and>
   list_ex backend_call (handleSignup example_form example_signup_env)"
proof -
  have a: "\<not> agreedToTerms (example_form\<lparr>agreedToTerms := False\<rparr>)" by simp
  have "list_ex backend_call (handleSignup example_form example_signup_env)"
    by (simp add: example_signup_defs)
  with a handleSignup_requires_terms [OF a, of example_signup_env] show ?thesis by blast
qed

end
